theory Spec2Isabelle
  imports Complex_Main
begin

section \<open>Baseline comparison of calibration results (vtkFreehandCalibrationTest.cxx)\<close>

text \<open>
  The test program compares a freshly computed calibration result document with a
  recorded baseline document and returns the number of differences.  This theory
  embeds \<^verbatim>\<open>CompareCalibrationResultsWithBaseline\<close> and
  \<^verbatim>\<open>GetCalibrationError\<close>, and the one call in \<^verbatim>\<open>main\<close> that hands the
  thresholds over.

  Numbers: a finite \<^verbatim>\<open>double\<close> is the real number it denotes.  The arithmetic of
  the source (lines 37, 323-325 and 448, and their copies) is IEEE 754 binary64: every
  operation rounds the exact result to the nearest double, ties to even, and overflows to
  an infinity.  The sign of a zero is not kept.  The numbers of a document are meant to be
  doubles; the definitions take any real number and the theorems do not need the
  restriction.
\<close>

subsection \<open>Binary64 arithmetic\<close>

text \<open>A \<^verbatim>\<open>double\<close>: a finite value, an infinity or NaN.\<close>

datatype double = Finite real | PlusInf | MinusInf | NaN

text \<open>The integer nearest to \<open>q\<close>, the even one of the two when \<open>q\<close> is half way.\<close>

definition round_half_even :: "real \<Rightarrow> int" where
  "round_half_even q =
     (let f = \<lfloor>q\<rfloor>; d = q - real_of_int f
      in if d < 1 / 2 then f else if 1 / 2 < d then f + 1 else if even f then f else f + 1)"

text \<open>
  The exponent \<open>e\<close> of the binade \<open>2\<^sup>e \<le> |x| < 2\<^sup>e\<^sup>+\<^sup>1\<close> of \<open>x\<close>, and \<open>-1022\<close> for zero and
  the subnormal numbers below \<open>2\<^sup>-\<^sup>1\<^sup>0\<^sup>2\<^sup>2\<close>.
\<close>

definition binade :: "real \<Rightarrow> int" where
  "binade x = (if \<bar>x\<bar> < 2 powi (- 1022) then - 1022 else \<lfloor>log 2 \<bar>x\<bar>\<rfloor>)"

text \<open>
  Rounding to 53 significant bits, to nearest and ties to even, before the test for
  overflow: the result is a multiple of the unit in the last place of the binade of \<open>x\<close>.
\<close>

definition round_finite :: "real \<Rightarrow> real" where
  "round_finite x =
     (let ulp = 2 powi (binade x - 52)
      in real_of_int (round_half_even (x / ulp)) * ulp)"

text \<open>The largest finite double, \<open>(2\<^sup>5\<^sup>3 - 1) \<cdot> 2\<^sup>9\<^sup>7\<^sup>1\<close>.\<close>

definition max_double :: real where
  "max_double = (2 ^ 53 - 1) * 2 ^ 971"

text \<open>The double that an operation with the exact result \<open>x\<close> returns.\<close>

definition round_double :: "real \<Rightarrow> double" where
  "round_double x =
     (let y = round_finite x
      in if max_double < y then PlusInf else if y < - max_double then MinusInf else Finite y)"

text \<open>
  The quotient \<^verbatim>\<open>b / c\<close> of two finite doubles: the rounded quotient, and for a zero
  divisor an infinity when \<open>b\<close> is not zero and NaN when it is.  With an unsigned zero the
  infinity takes the sign of \<open>b\<close>; a negative zero would flip it.
\<close>

definition double_div :: "real \<Rightarrow> real \<Rightarrow> double" where
  "double_div b c =
     (if c \<noteq> 0 then round_double (b / c)
      else if b = 0 then NaN
      else if 0 < b then PlusInf else MinusInf)"

text \<open>The difference \<^verbatim>\<open>b - c\<close> of two finite doubles.\<close>

definition double_sub :: "real \<Rightarrow> real \<Rightarrow> double" where
  "double_sub b c = round_double (b - c)"

text \<open>
  \<^verbatim>\<open>pow(x, 2)\<close>, taken as the correctly rounded square (the C library returns the
  square of a double within one unit in the last place).
\<close>

fun double_pow2 :: "double \<Rightarrow> double" where
  "double_pow2 (Finite x) = round_double (x * x)"
| "double_pow2 PlusInf = PlusInf"
| "double_pow2 MinusInf = PlusInf"
| "double_pow2 NaN = NaN"

text \<open>The sum \<^verbatim>\<open>x + y\<close> of two doubles.\<close>

fun double_add :: "double \<Rightarrow> double \<Rightarrow> double" where
  "double_add (Finite x) (Finite y) = round_double (x + y)"
| "double_add NaN y = NaN"
| "double_add x NaN = NaN"
| "double_add PlusInf MinusInf = NaN"
| "double_add MinusInf PlusInf = NaN"
| "double_add PlusInf y = PlusInf"
| "double_add x PlusInf = PlusInf"
| "double_add MinusInf y = MinusInf"
| "double_add x MinusInf = MinusInf"

text \<open>\<^verbatim>\<open>sqrt(x)\<close>, correctly rounded; NaN for a negative argument.\<close>

fun double_sqrt :: "double \<Rightarrow> double" where
  "double_sqrt (Finite x) = (if x < 0 then NaN else round_double (sqrt x))"
| "double_sqrt PlusInf = PlusInf"
| "double_sqrt MinusInf = NaN"
| "double_sqrt NaN = NaN"

text \<open>\<^verbatim>\<open>x > y\<close> and \<^verbatim>\<open>x < y\<close> for a finite \<open>y\<close>: every comparison with NaN is false.\<close>

fun double_gt :: "double \<Rightarrow> real \<Rightarrow> bool" where
  "double_gt (Finite x) y = (x > y)"
| "double_gt PlusInf y = True"
| "double_gt MinusInf y = False"
| "double_gt NaN y = False"

fun double_lt :: "double \<Rightarrow> real \<Rightarrow> bool" where
  "double_lt (Finite x) y = (x < y)"
| "double_lt PlusInf y = False"
| "double_lt MinusInf y = True"
| "double_lt NaN y = False"

text \<open>A real number that is a finite double: rounding leaves it as it is.\<close>

definition representable :: "real \<Rightarrow> bool" where
  "representable x = (round_double x = Finite x)"

subsection \<open>The result document\<close>

text \<open>
  Modelled from the spec: the value of an attribute of a \<^verbatim>\<open>vtkXMLDataElement\<close> (VTK,
  not among the sources) is a scalar, a numeric vector or a string.  The numbers are the
  doubles that reading the attribute gives.
\<close>

datatype attr_value = Scalar real | Vector "real list" | Text string

text \<open>
  Modelled from the spec: \<^verbatim>\<open>vtkXMLDataElement\<close> (VTK, not among the sources).  A node
  has a name, a value under each attribute name (the first entry for a name counts) and an
  ordered sequence of nested nodes.
\<close>

datatype element =
  Element (elem_name: string) (elem_attributes: "(string \<times> attr_value) list")
    (elem_nested: "element list")

text \<open>
  Modelled from the spec: \<^verbatim>\<open>FindNestedElementWithName\<close>, a single-level lookup by
  exact name, first match wins; \<open>None\<close> is the NULL pointer.
\<close>

definition FindNestedElementWithName :: "element \<Rightarrow> string \<Rightarrow> element option" where
  "FindNestedElementWithName e n = find (\<lambda>c. elem_name c = n) (elem_nested e)"

text \<open>
  Modelled from the spec: \<^verbatim>\<open>GetVectorAttribute\<close> of \<^verbatim>\<open>vtkXMLDataElement\<close> fails
  (\<open>None\<close>, the source tests the result with \<^verbatim>\<open>!\<close>) if the attribute is absent or has
  a different length than requested.
\<close>

definition GetVectorAttribute :: "element \<Rightarrow> string \<Rightarrow> nat \<Rightarrow> real list option" where
  "GetVectorAttribute e n len =
     (case map_of (elem_attributes e) n of
        Some (Vector v) \<Rightarrow> if length v = len then Some v else None
      | _ \<Rightarrow> None)"

text \<open>
  Modelled from the spec: \<^verbatim>\<open>GetScalarAttribute\<close> of \<^verbatim>\<open>vtkXMLDataElement\<close> fails
  if the attribute is absent.
\<close>

definition GetScalarAttribute :: "element \<Rightarrow> string \<Rightarrow> real option" where
  "GetScalarAttribute e n =
     (case map_of (elem_attributes e) n of Some (Scalar x) \<Rightarrow> Some x | _ \<Rightarrow> None)"

subsection \<open>4x4 matrices and the geometric error\<close>

text \<open>
  Modelled from the spec: \<^verbatim>\<open>vtkMatrix4x4\<close> (VTK, not among the sources), a 4x4
  matrix addressed by row and column, both 0..3.
\<close>

type_synonym matrix4x4 = "nat \<Rightarrow> nat \<Rightarrow> real"

text \<open>Modelled from the spec: a new \<^verbatim>\<open>vtkMatrix4x4\<close> is the identity.\<close>

definition Identity4x4 :: matrix4x4 where
  "Identity4x4 = (\<lambda>i j. if i = j then 1 else 0)"

text \<open>Modelled from the spec: \<^verbatim>\<open>vtkMatrix4x4::SetElement\<close> writes one element.\<close>

definition SetElement :: "matrix4x4 \<Rightarrow> nat \<Rightarrow> nat \<Rightarrow> real \<Rightarrow> matrix4x4" where
  "SetElement m i j v = m(i := (m i)(j := v))"

text \<open>Modelled from the spec: \<^verbatim>\<open>vtkMatrix4x4::GetElement\<close> reads one element.\<close>

definition GetElement :: "matrix4x4 \<Rightarrow> nat \<Rightarrow> nat \<Rightarrow> real" where
  "GetElement m i j = m i j"

text \<open>
  Lines 238-249: the two nested loops that copy the 16 numbers of the attribute, row-major,
  into a new matrix.
\<close>

definition MatrixFromArray :: "real list \<Rightarrow> matrix4x4" where
  "MatrixFromArray a =
     fold (\<lambda>i m. fold (\<lambda>j m'. SetElement m' i j (a ! (4 * i + j))) [0..<4] m) [0..<4]
       Identity4x4"

text \<open>
  Modelled from the spec: \<^verbatim>\<open>vtkTransform\<close> (VTK, not among the sources), as far as the
  code uses it: a transform holds a 4x4 matrix.
\<close>

record vtkTransform =
  Matrix :: matrix4x4

text \<open>Modelled from the spec: a new \<^verbatim>\<open>vtkTransform\<close> is the identity.\<close>

definition vtkTransform_New :: vtkTransform where
  "vtkTransform_New = \<lparr>Matrix = Identity4x4\<rparr>"

text \<open>Modelled from the spec: \<^verbatim>\<open>vtkTransform::SetMatrix\<close> stores the matrix.\<close>

definition SetMatrix :: "vtkTransform \<Rightarrow> matrix4x4 \<Rightarrow> vtkTransform" where
  "SetMatrix t m = t\<lparr>Matrix := m\<rparr>"

text \<open>
  Modelled from the spec: \<^verbatim>\<open>vtkTransform::GetPosition\<close> gives the translation
  component of the matrix, rows 0..2 of column 3.
\<close>

definition GetPosition :: "vtkTransform \<Rightarrow> real list" where
  "GetPosition t =
     [GetElement (Matrix t) 0 3, GetElement (Matrix t) 1 3, GetElement (Matrix t) 2 3]"

text \<open>
  Lines 431-451.  Line 448 is evaluated in binary64, from the left: the three differences,
  their squares, the two sums and the square root are each rounded.
\<close>

definition GetCalibrationError :: "matrix4x4 \<Rightarrow> matrix4x4 \<Rightarrow> double" where
  "GetCalibrationError baseTransMatrix currentTransMatrix =
     (let baseTransform = SetMatrix vtkTransform_New baseTransMatrix;
          currentTransform = SetMatrix vtkTransform_New currentTransMatrix;
          bx = GetPosition baseTransform ! 0;
          by = GetPosition baseTransform ! 1;
          bz = GetPosition baseTransform ! 2;
          cx = GetPosition currentTransform ! 0;
          cy = GetPosition currentTransform ! 1;
          cz = GetPosition currentTransform ! 2;
          distance =
            double_sqrt
              (double_add
                 (double_add (double_pow2 (double_sub bx cx)) (double_pow2 (double_sub by cy)))
                 (double_pow2 (double_sub bz cz)))
      in distance)"

text \<open>
  Modelled from the spec: \<^verbatim>\<open>PlusMath::GetPositionDifference\<close> (PlusMath is not among
  the sources) is the Euclidean distance between the translation components of the two
  matrices.  The specification says nothing of rounding, so the distance is the exact one.
\<close>

definition GetPositionDifference :: "matrix4x4 \<Rightarrow> matrix4x4 \<Rightarrow> real" where
  "GetPositionDifference a b =
     sqrt ((GetElement a 0 3 - GetElement b 0 3)\<^sup>2
         + (GetElement a 1 3 - GetElement b 1 3)\<^sup>2
         + (GetElement a 2 3 - GetElement b 2 3)\<^sup>2)"

text \<open>
  Modelled from the spec: the relative rotation \<open>R_rel = R_A\<^sup>T \<cdot> R_B\<close> of the upper-left
  3x3 blocks of two matrices, as \<^verbatim>\<open>PlusMath::GetOrientationDifference\<close> (PlusMath is not
  among the sources) needs it.
\<close>

definition RelativeRotation :: "matrix4x4 \<Rightarrow> matrix4x4 \<Rightarrow> nat \<Rightarrow> nat \<Rightarrow> real" where
  "RelativeRotation a b i j = (\<Sum>k \<leftarrow> [0..<3]. GetElement a k i * GetElement b k j)"

text \<open>Modelled from the spec: the trace of a 3x3 block, for the same function.\<close>

definition Trace3 :: "(nat \<Rightarrow> nat \<Rightarrow> real) \<Rightarrow> real" where
  "Trace3 r = (\<Sum>i \<leftarrow> [0..<3]. r i i)"

text \<open>
  Modelled from the spec: \<^verbatim>\<open>PlusMath::GetOrientationDifference\<close> (PlusMath is not among
  the sources) is the angular magnitude of the relative rotation,
  \<open>arccos ((trace R_rel - 1) / 2)\<close>, in degrees.  Outside \<open>[-1, 1]\<close> the arc cosine of
  the C library is NaN.
\<close>

definition GetOrientationDifference :: "matrix4x4 \<Rightarrow> matrix4x4 \<Rightarrow> double" where
  "GetOrientationDifference a b =
     (let c = (Trace3 (RelativeRotation a b) - 1) / 2
      in if - 1 \<le> c \<and> c \<le> 1 then Finite (arccos c * 180 / pi) else NaN)"

subsection \<open>Failure records\<close>

text \<open>
  Every \<^verbatim>\<open>numberOfFailures++\<close> of the source comes with one \<^verbatim>\<open>LOG_ERROR\<close>
  line.  The model keeps the lines, in order, as failure records; the number the function
  returns is their count.
\<close>

datatype document = Baseline | Current

datatype failure =
    DocumentUnreadable document
  | SectionMissing document string
  | AttributeMissing document string
  | TranslationErrorExceeded real int
  | RotationErrorExceeded double int
  | ElementMismatch string nat real real
  | ConfidenceLevelMismatch string real real

text \<open>
  A block of the function either returns from the whole function with the failures it
  recorded, or falls through to the code after it.
\<close>

datatype outcome = Return "failure list" | Fallthrough "failure list"

fun outcome_failures :: "outcome \<Rightarrow> failure list" where
  "outcome_failures (Return fs) = fs"
| "outcome_failures (Fallthrough fs) = fs"

fun is_translation_failure :: "failure \<Rightarrow> bool" where
  "is_translation_failure (TranslationErrorExceeded e t) = True"
| "is_translation_failure f = False"

fun is_rotation_failure :: "failure \<Rightarrow> bool" where
  "is_rotation_failure (RotationErrorExceeded e t) = True"
| "is_rotation_failure f = False"

subsection \<open>The tolerance rules\<close>

text \<open>Line 37: the constant is the double nearest to 0.05.\<close>

definition ERROR_THRESHOLD :: real where
  "ERROR_THRESHOLD = round_finite (5 / 100)"

text \<open>
  Lines 323-325 (and 346-348, 392-394, 415-417): the ratio \<^verbatim>\<open>1.0 * baseline / current\<close>
  and the test \<^verbatim>\<open>ratio > 1 + ERROR_THRESHOLD || ratio < 1 - ERROR_THRESHOLD\<close>.  The
  product of 1.0 and a double is that double; the quotient, the sum and the difference are
  rounded.
\<close>

definition RatioOutOfTolerance :: "real \<Rightarrow> real \<Rightarrow> bool" where
  "RatioOutOfTolerance baseline current =
     (let ratio = double_div (1 * baseline) current
      in double_gt ratio (round_finite (1 + ERROR_THRESHOLD))
         \<or> double_lt ratio (round_finite (1 - ERROR_THRESHOLD)))"

text \<open>
  Lines 323-329 with \<open>name = PRE\<close> and lines 392-398 with \<open>name = PLDE\<close>: the body of
  the loop over the components, at index \<open>i\<close>.
\<close>

definition CompareElement :: "string \<Rightarrow> real list \<Rightarrow> real list \<Rightarrow> nat \<Rightarrow> failure list" where
  "CompareElement name bl c i =
     (if RatioOutOfTolerance (bl ! i) (c ! i)
      then [ElementMismatch name i (c ! i) (bl ! i)] else [])"

text \<open>
  Lines 321-330 (\<open>n = 9\<close>) and 390-399 (\<open>n = 3\<close>): the loop, from index \<open>i\<close> on.  Both
  arrays have \<open>n\<close> elements.
\<close>

function CompareElements ::
  "string \<Rightarrow> nat \<Rightarrow> nat \<Rightarrow> real list \<Rightarrow> real list \<Rightarrow> failure list" where
  "CompareElements name i n bl c =
     (if i < n
      then CompareElement name bl c i @ CompareElements name (Suc i) n bl c
      else [])"
  by pat_completeness auto
termination
  by (relation "measure (\<lambda>(name, i, n, bl, c). n - i)") auto

declare CompareElements.simps [simp del]

text \<open>
  Lines 306-331 (\<open>PRE\<close>, 9) and 375-400 (\<open>PLDE\<close>, 3): the vector attribute of the two
  sections.  The current document is read only when the baseline has the attribute.
\<close>

definition CompareVectorAttribute ::
  "string \<Rightarrow> nat \<Rightarrow> element \<Rightarrow> element \<Rightarrow> failure list" where
  "CompareVectorAttribute name n baselineElem currentElem =
     (case GetVectorAttribute baselineElem name n of
        None \<Rightarrow> [AttributeMissing Baseline name]
      | Some bl \<Rightarrow>
          (case GetVectorAttribute currentElem name n of
             None \<Rightarrow> [AttributeMissing Current name]
           | Some c \<Rightarrow> CompareElements name 0 n bl c))"

text \<open>
  Lines 333-353 (\<open>label = PRE\<close>) and 402-422 (\<open>label = PLDE\<close>): the scalar
  \<^verbatim>\<open>ValidationDataConfidenceLevel\<close> of the two sections.
\<close>

definition CompareConfidenceLevel :: "string \<Rightarrow> element \<Rightarrow> element \<Rightarrow> failure list" where
  "CompareConfidenceLevel label baselineElem currentElem =
     (case GetScalarAttribute baselineElem ''ValidationDataConfidenceLevel'' of
        None \<Rightarrow> [AttributeMissing Baseline (label @ '' ValidationDataConfidenceLevel'')]
      | Some bl \<Rightarrow>
          (case GetScalarAttribute currentElem ''ValidationDataConfidenceLevel'' of
             None \<Rightarrow> [AttributeMissing Current (label @ '' ValidationDataConfidenceLevel'')]
           | Some c \<Rightarrow>
               if RatioOutOfTolerance bl c then [ConfidenceLevelMismatch label c bl]
               else []))"

text \<open>
  Lines 238-263: the two matrices are filled from the arrays, then the translation error
  and the rotation error are each compared with their integer threshold.
\<close>

definition CompareTransforms :: "real list \<Rightarrow> real list \<Rightarrow> int \<Rightarrow> int \<Rightarrow> failure list" where
  "CompareTransforms blTransformImageToProbe cTransformImageToProbe
       translationErrorThreshold rotationErrorThreshold =
     (let baseTransMatrix = MatrixFromArray blTransformImageToProbe;
          currentTransMatrix = MatrixFromArray cTransformImageToProbe;
          translationError = GetPositionDifference baseTransMatrix currentTransMatrix;
          rotationError = GetOrientationDifference baseTransMatrix currentTransMatrix
      in (if translationError > real_of_int translationErrorThreshold
          then [TranslationErrorExceeded translationError translationErrorThreshold]
          else [])
       @ (if double_gt rotationError (real_of_int rotationErrorThreshold)
          then [RotationErrorExceeded rotationError rotationErrorThreshold]
          else []))"

text \<open>Lines 222-264: the attribute \<^verbatim>\<open>TransformImageToProbe\<close> of the two sections.\<close>

definition CompareTransformImageToProbe ::
  "element \<Rightarrow> element \<Rightarrow> int \<Rightarrow> int \<Rightarrow> failure list" where
  "CompareTransformImageToProbe calibrationTransformBaseline calibrationTransform
       translationErrorThreshold rotationErrorThreshold =
     (case GetVectorAttribute calibrationTransformBaseline ''TransformImageToProbe'' 16 of
        None \<Rightarrow> [AttributeMissing Baseline ''TransformImageToProbe'']
      | Some bl \<Rightarrow>
          (case GetVectorAttribute calibrationTransform ''TransformImageToProbe'' 16 of
             None \<Rightarrow> [AttributeMissing Current ''TransformImageToProbe'']
           | Some c \<Rightarrow>
               CompareTransforms bl c translationErrorThreshold rotationErrorThreshold))"

subsection \<open>The blocks of the comparison\<close>

text \<open>
  Lines 204-266, the block \<^verbatim>\<open><CalibrationTransform>\<close> inside
  \<^verbatim>\<open><CalibrationResults>\<close>: a missing section returns from the function.
\<close>

definition CalibrationTransformBlock :: "element \<Rightarrow> element \<Rightarrow> int \<Rightarrow> int \<Rightarrow> outcome" where
  "CalibrationTransformBlock calibrationResultsBaseline calibrationResults
       translationErrorThreshold rotationErrorThreshold =
     (case FindNestedElementWithName calibrationResultsBaseline ''CalibrationTransform'' of
        None \<Rightarrow> Return [SectionMissing Baseline ''CalibrationTransform'']
      | Some calibrationTransformBaseline \<Rightarrow>
          (case FindNestedElementWithName calibrationResults ''CalibrationTransform'' of
             None \<Rightarrow> Return [SectionMissing Current ''CalibrationTransform'']
           | Some calibrationTransform \<Rightarrow>
               Fallthrough
                 (CompareTransformImageToProbe calibrationTransformBaseline
                    calibrationTransform translationErrorThreshold rotationErrorThreshold)))"

text \<open>Lines 186-268, the block \<^verbatim>\<open><CalibrationResults>\<close>.\<close>

definition CalibrationResultsBlock :: "element \<Rightarrow> element \<Rightarrow> int \<Rightarrow> int \<Rightarrow> outcome" where
  "CalibrationResultsBlock baselineRootElem currentRootElem
       translationErrorThreshold rotationErrorThreshold =
     (case FindNestedElementWithName baselineRootElem ''CalibrationResults'' of
        None \<Rightarrow> Return [SectionMissing Baseline ''CalibrationResults'']
      | Some calibrationResultsBaseline \<Rightarrow>
          (case FindNestedElementWithName currentRootElem ''CalibrationResults'' of
             None \<Rightarrow> Return [SectionMissing Current ''CalibrationResults'']
           | Some calibrationResults \<Rightarrow>
               CalibrationTransformBlock calibrationResultsBaseline calibrationResults
                 translationErrorThreshold rotationErrorThreshold))"

text \<open>Lines 288-355, the block \<^verbatim>\<open><PointReconstructionErrorAnalysis>\<close>.\<close>

definition PointReconstructionErrorAnalysisBlock :: "element \<Rightarrow> element \<Rightarrow> outcome" where
  "PointReconstructionErrorAnalysisBlock errorReportsBaseline errorReports =
     (case FindNestedElementWithName errorReportsBaseline
             ''PointReconstructionErrorAnalysis'' of
        None \<Rightarrow> Return [SectionMissing Baseline ''PointReconstructionErrorAnalysis'']
      | Some pointReconstructionErrorAnalysisBaseline \<Rightarrow>
          (case FindNestedElementWithName errorReports
                  ''PointReconstructionErrorAnalysis'' of
             None \<Rightarrow> Return [SectionMissing Current ''PointReconstructionErrorAnalysis'']
           | Some pointReconstructionErrorAnalysis \<Rightarrow>
               Fallthrough
                 (CompareVectorAttribute ''PRE'' 9 pointReconstructionErrorAnalysisBaseline
                    pointReconstructionErrorAnalysis
                  @ CompareConfidenceLevel ''PRE'' pointReconstructionErrorAnalysisBaseline
                      pointReconstructionErrorAnalysis)))"

text \<open>Lines 357-424, the block \<^verbatim>\<open><PointLineDistanceErrorAnalysis>\<close>.\<close>

definition PointLineDistanceErrorAnalysisBlock :: "element \<Rightarrow> element \<Rightarrow> outcome" where
  "PointLineDistanceErrorAnalysisBlock errorReportsBaseline errorReports =
     (case FindNestedElementWithName errorReportsBaseline
             ''PointLineDistanceErrorAnalysis'' of
        None \<Rightarrow> Return [SectionMissing Baseline ''PointLineDistanceErrorAnalysis'']
      | Some pointLineDistanceErrorAnalysisBaseline \<Rightarrow>
          (case FindNestedElementWithName errorReports
                  ''PointLineDistanceErrorAnalysis'' of
             None \<Rightarrow> Return [SectionMissing Current ''PointLineDistanceErrorAnalysis'']
           | Some pointLineDistanceErrorAnalysis \<Rightarrow>
               Fallthrough
                 (CompareVectorAttribute ''PLDE'' 3 pointLineDistanceErrorAnalysisBaseline
                    pointLineDistanceErrorAnalysis
                  @ CompareConfidenceLevel ''PLDE'' pointLineDistanceErrorAnalysisBaseline
                      pointLineDistanceErrorAnalysis)))"

text \<open>
  Lines 270-425, the block \<^verbatim>\<open><ErrorReports>\<close>: the second analysis is reached only
  when the first one falls through.
\<close>

definition ErrorReportsBlock :: "element \<Rightarrow> element \<Rightarrow> outcome" where
  "ErrorReportsBlock baselineRootElem currentRootElem =
     (case FindNestedElementWithName baselineRootElem ''ErrorReports'' of
        None \<Rightarrow> Return [SectionMissing Baseline ''ErrorReports'']
      | Some errorReportsBaseline \<Rightarrow>
          (case FindNestedElementWithName currentRootElem ''ErrorReports'' of
             None \<Rightarrow> Return [SectionMissing Current ''ErrorReports'']
           | Some errorReports \<Rightarrow>
               (case PointReconstructionErrorAnalysisBlock errorReportsBaseline errorReports of
                  Return fs \<Rightarrow> Return fs
                | Fallthrough fs \<Rightarrow>
                    (case PointLineDistanceErrorAnalysisBlock errorReportsBaseline
                            errorReports of
                       Return gs \<Rightarrow> Return (fs @ gs)
                     | Fallthrough gs \<Rightarrow> Fallthrough (fs @ gs)))))"

subsection \<open>The comparison\<close>

text \<open>
  Lines 164-429.  The two arguments are what \<^verbatim>\<open>ReadElementFromFile\<close> gave for the
  two file names (\<open>None\<close> is NULL).  \<open>CompareFailures\<close> is the sequence of failures
  logged, \<open>CompareCalibrationResultsWithBaseline\<close> the number returned.
\<close>

definition CompareFailures ::
  "element option \<Rightarrow> element option \<Rightarrow> int \<Rightarrow> int \<Rightarrow> failure list" where
  "CompareFailures baselineRootElem currentRootElem
       translationErrorThreshold rotationErrorThreshold =
     (case baselineRootElem of
        None \<Rightarrow> [DocumentUnreadable Baseline]
      | Some baselineRoot \<Rightarrow>
          (case currentRootElem of
             None \<Rightarrow> [DocumentUnreadable Current]
           | Some currentRoot \<Rightarrow>
               (case CalibrationResultsBlock baselineRoot currentRoot
                       translationErrorThreshold rotationErrorThreshold of
                  Return fs \<Rightarrow> fs
                | Fallthrough fs \<Rightarrow>
                    (case ErrorReportsBlock baselineRoot currentRoot of
                       Return gs \<Rightarrow> fs @ gs
                     | Fallthrough gs \<Rightarrow> fs @ gs))))"

definition CompareCalibrationResultsWithBaseline ::
  "element option \<Rightarrow> element option \<Rightarrow> int \<Rightarrow> int \<Rightarrow> int" where
  "CompareCalibrationResultsWithBaseline baselineRootElem currentRootElem
       translationErrorThreshold rotationErrorThreshold =
     int (length (CompareFailures baselineRootElem currentRootElem
       translationErrorThreshold rotationErrorThreshold))"

subsection \<open>The thresholds in main\<close>

text \<open>
  Lines 51-52 and 149: \<^verbatim>\<open>main\<close> holds the two thresholds as \<^verbatim>\<open>double\<close> and passes
  them to \<^verbatim>\<open>int\<close> parameters.  The implicit conversion of C++ drops the fractional
  part; it is undefined when the result does not fit a 32-bit \<^verbatim>\<open>int\<close>.
\<close>

definition truncate :: "real \<Rightarrow> int" where
  "truncate x = (if 0 \<le> x then \<lfloor>x\<rfloor> else \<lceil>x\<rceil>)"

text \<open>The conversion from \<^verbatim>\<open>double\<close> to \<^verbatim>\<open>int\<close>; \<open>None\<close> is undefined behaviour.\<close>

definition double_to_int :: "real \<Rightarrow> int option" where
  "double_to_int x =
     (if - (2 ^ 31) \<le> truncate x \<and> truncate x < 2 ^ 31 then Some (truncate x) else None)"

text \<open>
  Line 149, the call of the comparison in \<^verbatim>\<open>main\<close>, with the two conversions it
  implies.  The \<^verbatim>\<open>int\<close> thresholds that reach the comparison are within the 32-bit
  range, so their conversion back to \<^verbatim>\<open>double\<close> in lines 252 and 259 is exact.
\<close>

definition main_compare ::
  "element option \<Rightarrow> element option \<Rightarrow> real \<Rightarrow> real \<Rightarrow> int option" where
  "main_compare baselineRootElem currentRootElem
       inputTranslationErrorThreshold inputRotationErrorThreshold =
     (case double_to_int inputTranslationErrorThreshold of
        None \<Rightarrow> None
      | Some translationErrorThreshold \<Rightarrow>
          (case double_to_int inputRotationErrorThreshold of
             None \<Rightarrow> None
           | Some rotationErrorThreshold \<Rightarrow>
               Some (CompareCalibrationResultsWithBaseline baselineRootElem currentRootElem
                       translationErrorThreshold rotationErrorThreshold)))"

subsection \<open>Documents of the expected shape, and edits of a document\<close>

text \<open>
  The rotation block of a transform is orthonormal: \<open>R\<^sup>T \<cdot> R\<close> is the identity.
\<close>

definition OrthonormalRotation :: "matrix4x4 \<Rightarrow> bool" where
  "OrthonormalRotation m =
     list_all (\<lambda>i. list_all (\<lambda>j. RelativeRotation m m i j = (if i = j then 1 else 0)) [0..<3])
       [0..<3]"

text \<open>
  A valid document, after the document format and the data model of the specification: it
  has every section and attribute of the format, with the declared lengths, and a transform
  whose rotation block is orthonormal.
\<close>

definition valid_analysis :: "string \<Rightarrow> string \<Rightarrow> nat \<Rightarrow> element \<Rightarrow> bool" where
  "valid_analysis section name n errorReports =
     (case FindNestedElementWithName errorReports section of
        None \<Rightarrow> False
      | Some a \<Rightarrow>
          GetVectorAttribute a name n \<noteq> None
          \<and> GetScalarAttribute a ''ValidationDataConfidenceLevel'' \<noteq> None)"

definition valid_transform :: "element \<Rightarrow> bool" where
  "valid_transform rootElem =
     (case FindNestedElementWithName rootElem ''CalibrationResults'' of
        None \<Rightarrow> False
      | Some calibrationResults \<Rightarrow>
          (case FindNestedElementWithName calibrationResults ''CalibrationTransform'' of
             None \<Rightarrow> False
           | Some calibrationTransform \<Rightarrow>
               (case GetVectorAttribute calibrationTransform ''TransformImageToProbe'' 16 of
                  None \<Rightarrow> False
                | Some t \<Rightarrow> OrthonormalRotation (MatrixFromArray t))))"

definition valid_document :: "element \<Rightarrow> bool" where
  "valid_document rootElem =
     (valid_transform rootElem
      \<and> (case FindNestedElementWithName rootElem ''ErrorReports'' of
           None \<Rightarrow> False
         | Some errorReports \<Rightarrow>
             valid_analysis ''PointReconstructionErrorAnalysis'' ''PRE'' 9 errorReports
             \<and> valid_analysis ''PointLineDistanceErrorAnalysis'' ''PLDE'' 3 errorReports))"



text \<open>The \<open>PRE\<close> vector of a document, where the comparison looks for it.\<close>

definition document_PRE :: "element \<Rightarrow> real list option" where
  "document_PRE rootElem =
     (case FindNestedElementWithName rootElem ''ErrorReports'' of
        None \<Rightarrow> None
      | Some errorReports \<Rightarrow>
          (case FindNestedElementWithName errorReports ''PointReconstructionErrorAnalysis'' of
             None \<Rightarrow> None
           | Some a \<Rightarrow> GetVectorAttribute a ''PRE'' 9))"

text \<open>
  Edits: \<open>in_section n f\<close> applies \<open>f\<close> to the first nested element called \<open>n\<close>, the one
  the lookup finds; an attribute is removed, or set to a new value.
\<close>

fun map_first :: "('a \<Rightarrow> bool) \<Rightarrow> ('a \<Rightarrow> 'a) \<Rightarrow> 'a list \<Rightarrow> 'a list" where
  "map_first P f [] = []"
| "map_first P f (x # xs) = (if P x then f x # xs else x # map_first P f xs)"

definition in_section :: "string \<Rightarrow> (element \<Rightarrow> element) \<Rightarrow> element \<Rightarrow> element" where
  "in_section n f e =
     Element (elem_name e) (elem_attributes e)
       (map_first (\<lambda>c. elem_name c = n) f (elem_nested e))"

definition remove_attribute :: "string \<Rightarrow> element \<Rightarrow> element" where
  "remove_attribute n e =
     Element (elem_name e) (filter (\<lambda>kv. fst kv \<noteq> n) (elem_attributes e)) (elem_nested e)"

definition set_attribute :: "string \<Rightarrow> attr_value \<Rightarrow> element \<Rightarrow> element" where
  "set_attribute n v e =
     Element (elem_name e) ((n, v) # filter (\<lambda>kv. fst kv \<noteq> n) (elem_attributes e))
       (elem_nested e)"

definition remove_PRE :: "element \<Rightarrow> element" where
  "remove_PRE rootElem =
     in_section ''ErrorReports''
       (in_section ''PointReconstructionErrorAnalysis'' (remove_attribute ''PRE'')) rootElem"

definition set_PRE :: "real list \<Rightarrow> element \<Rightarrow> element" where
  "set_PRE v rootElem =
     in_section ''ErrorReports''
       (in_section ''PointReconstructionErrorAnalysis'' (set_attribute ''PRE'' (Vector v)))
       rootElem"

text \<open>
  The documents of the end-to-end scenario of the specification: the identity transform,
  \<open>PRE\<close> and \<open>PLDE\<close> all ones, both confidence levels 0.95.
\<close>

definition example_transform :: "real list \<Rightarrow> element" where
  "example_transform t =
     Element ''CalibrationResults'' []
       [Element ''CalibrationTransform'' [(''TransformImageToProbe'', Vector t)] []]"

definition example_analysis :: "string \<Rightarrow> string \<Rightarrow> real list \<Rightarrow> element" where
  "example_analysis section name v =
     Element section
       [(name, Vector v), (''ValidationDataConfidenceLevel'', Scalar (95 / 100))] []"

definition identity_array :: "real list" where
  "identity_array = [1, 0, 0, 0,  0, 1, 0, 0,  0, 0, 1, 0,  0, 0, 0, 1]"

definition example_error_reports :: element where
  "example_error_reports =
     Element ''ErrorReports'' []
       [example_analysis ''PointReconstructionErrorAnalysis'' ''PRE''
          [1, 1, 1, 1, 1, 1, 1, 1, 1],
        example_analysis ''PointLineDistanceErrorAnalysis'' ''PLDE'' [1, 1, 1]]"

definition example_document :: element where
  "example_document =
     Element ''Root'' [] [example_transform identity_array, example_error_reports]"

text \<open>
  A current document that has no \<^verbatim>\<open>PointReconstructionErrorAnalysis\<close> section and whose
  first \<open>PLDE\<close> component is 2 where the baseline has 1.
\<close>

definition error_reports_without_PRE_section :: element where
  "error_reports_without_PRE_section =
     Element ''ErrorReports'' []
       [example_analysis ''PointLineDistanceErrorAnalysis'' ''PLDE'' [2, 1, 1]]"

definition document_without_PRE_section :: element where
  "document_without_PRE_section =
     Element ''Root'' []
       [example_transform identity_array, error_reports_without_PRE_section]"

text \<open>
  A current document whose \<^verbatim>\<open>PointReconstructionErrorAnalysis\<close> section has no \<open>PRE\<close>
  attribute, and whose confidence level there and first \<open>PLDE\<close> component differ from
  the example document.
\<close>

definition analysis_without_PRE_attribute :: element where
  "analysis_without_PRE_attribute =
     Element ''PointReconstructionErrorAnalysis''
       [(''ValidationDataConfidenceLevel'', Scalar (1 / 2))] []"

definition error_reports_without_PRE_attribute :: element where
  "error_reports_without_PRE_attribute =
     Element ''ErrorReports'' []
       [analysis_without_PRE_attribute,
        example_analysis ''PointLineDistanceErrorAnalysis'' ''PLDE'' [2, 1, 1]]"

definition document_without_PRE_attribute :: element where
  "document_without_PRE_attribute =
     Element ''Root'' []
       [example_transform identity_array, error_reports_without_PRE_attribute]"



text \<open>The transform that is a translation to the position \<open>(x, y, z)\<close>.\<close>

definition translation_array :: "real \<Rightarrow> real \<Rightarrow> real \<Rightarrow> real list" where
  "translation_array x y z = [1, 0, 0, x,  0, 1, 0, y,  0, 0, 1, z,  0, 0, 0, 1]"

text \<open>
  A transform that is the identity rotated by 90 degrees about the third axis and moved to
  the position \<open>(x, y, z)\<close>.
\<close>

definition quarter_turn_array :: "real \<Rightarrow> real \<Rightarrow> real \<Rightarrow> real list" where
  "quarter_turn_array x y z = [0, - 1, 0, x,  1, 0, 0, y,  0, 0, 1, z,  0, 0, 0, 1]"

definition translated_document :: "real \<Rightarrow> element" where
  "translated_document x =
     Element ''Root'' []
       [example_transform [1, 0, 0, x,  0, 1, 0, 0,  0, 0, 1, 0,  0, 0, 0, 1],
        example_error_reports]"

section \<open>Properties\<close>

subsection \<open>Rounding\<close>

lemma round_half_even_of_int [simp]: "round_half_even (real_of_int n) = n"
  by (simp add: round_half_even_def)

lemma round_half_even_floor:
  "\<lfloor>q\<rfloor> \<le> round_half_even q" "round_half_even q \<le> \<lfloor>q\<rfloor> + 1"
  by (simp_all add: round_half_even_def Let_def)

lemma round_half_even_ge: "real_of_int n \<le> q \<Longrightarrow> n \<le> round_half_even q"
  using round_half_even_floor(1) [of q] le_floor_iff [of n q] by linarith

lemma round_half_even_le:
  assumes "q \<le> real_of_int n"
  shows "round_half_even q \<le> n"
proof (cases "q = real_of_int n")
  case True
  then show ?thesis by simp
next
  case False
  with assms have "q < real_of_int n" by simp
  then have "\<lfloor>q\<rfloor> < n" by (simp add: floor_less_iff)
  with round_half_even_floor(2) [of q] show ?thesis by linarith
qed

lemma round_half_even_gt_odd:
  assumes "odd m"
  shows "m < round_half_even q \<longleftrightarrow> real_of_int m + 1 / 2 \<le> q"
proof (cases "\<lfloor>q\<rfloor> = m")
  case True
  with assms show ?thesis
    by (auto simp: round_half_even_def Let_def)
next
  case False
  show ?thesis
  proof (cases "\<lfloor>q\<rfloor> < m")
    case True
    then have "\<lfloor>q\<rfloor> + 1 \<le> m" by simp
    moreover from True have "q < real_of_int m" by (simp add: floor_less_iff)
    ultimately show ?thesis by (auto simp: round_half_even_def Let_def)
  next
    case False
    with \<open>\<lfloor>q\<rfloor> \<noteq> m\<close> have gt: "m < \<lfloor>q\<rfloor>" by simp
    then have "m + 1 \<le> \<lfloor>q\<rfloor>" by simp
    then have "real_of_int (m + 1) \<le> q" by (simp only: le_floor_iff)
    then have "real_of_int m + 1 \<le> q" by simp
    moreover have "m < round_half_even q"
      using gt round_half_even_floor(1) [of q] by linarith
    ultimately show ?thesis by simp
  qed
qed

lemma round_half_even_lt_even:
  assumes "even m"
  shows "round_half_even q < m \<longleftrightarrow> q < real_of_int m - 1 / 2"
proof (cases "\<lfloor>q\<rfloor> = m - 1")
  case True
  then have "odd \<lfloor>q\<rfloor>" using assms by simp
  with True show ?thesis
    by (auto simp: round_half_even_def Let_def)
next
  case False
  show ?thesis
  proof (cases "\<lfloor>q\<rfloor> < m - 1")
    case True
    then have "\<lfloor>q\<rfloor> + 1 < m" by simp
    moreover from True have "q < real_of_int m - 1"
      using floor_less_iff [of q "m - 1"] by simp
    ultimately show ?thesis by (auto simp: round_half_even_def Let_def)
  next
    case False
    with \<open>\<lfloor>q\<rfloor> \<noteq> m - 1\<close> have ge: "m \<le> \<lfloor>q\<rfloor>" by simp
    then have "real_of_int m \<le> q" by (simp add: le_floor_iff)
    with ge show ?thesis by (auto simp: round_half_even_def Let_def)
  qed
qed


lemma two_powi_pos [simp]: "0 < (2::real) powi e"
  by (simp add: zero_less_power_int)

lemma two_powr_powi: "(2::real) powr real_of_int k = 2 powi k"
  by (rule powr_real_of_int') simp_all

lemma two_powi_52: "(2::real) powi e = 2 ^ 52 * 2 powi (e - 52)"
proof -
  have "(2::real) powi e = 2 powi (52 + (e - 52))" by simp
  also have "\<dots> = 2 powi 52 * 2 powi (e - 52)" by (rule power_int_add) simp
  finally show ?thesis by simp
qed

lemma two_powi_split: "(2::real) powi a = 2 powi (a - b) * 2 powi b"
proof -
  have "(2::real) powi a = 2 powi ((a - b) + b)" by simp
  also have "\<dots> = 2 powi (a - b) * 2 powi b" by (rule power_int_add) simp
  finally show ?thesis .
qed

lemma two_powi_53: "(2::real) powi (e + 1) = 2 ^ 53 * 2 powi (e - 52)"
  using two_powi_split [of "e + 1" "e - 52"] by simp

lemma two_powi_less_cancel: "(2::real) powi a < 2 powi b \<Longrightarrow> a < b"
  by (metis linorder_not_less power_int_increasing one_le_numeral)

lemma two_powi_le_cancel: "(2::real) powi a \<le> 2 powi b \<Longrightarrow> a \<le> b"
  by (metis linorder_not_less power_int_strict_increasing one_less_numeral_iff
      semiring_norm(76))

lemma binade_ge: "- 1022 \<le> binade x"
proof (cases "\<bar>x\<bar> < 2 powi (- 1022)")
  case True
  then show ?thesis by (simp add: binade_def)
next
  case False
  then have "(2::real) powr real_of_int (- 1022) \<le> \<bar>x\<bar>"
    using two_powr_powi [of "- 1022"] by simp
  moreover from False have "0 < \<bar>x\<bar>"
    using two_powi_pos [of "- 1022"] by linarith
  ultimately have "real_of_int (- 1022) \<le> log 2 \<bar>x\<bar>"
    using le_log_iff [of 2 "\<bar>x\<bar>" "real_of_int (- 1022)"] by simp
  then have "- 1022 \<le> \<lfloor>log 2 \<bar>x\<bar>\<rfloor>" by (simp only: le_floor_iff)
  with False show ?thesis by (simp add: binade_def)
qed

lemma binade_bounds:
  assumes "2 powi (- 1022) \<le> \<bar>x\<bar>"
  shows "2 powi (binade x) \<le> \<bar>x\<bar>" and "\<bar>x\<bar> < 2 powi (binade x + 1)"
proof -
  from assms have pos: "0 < \<bar>x\<bar>"
    using two_powi_pos [of "- 1022"] by linarith
  from assms have b: "binade x = \<lfloor>log 2 \<bar>x\<bar>\<rfloor>" by (simp add: binade_def)
  have *: "2 powr real_of_int (binade x) \<le> \<bar>x\<bar> \<and> \<bar>x\<bar> < 2 powr (real_of_int (binade x) + 1)"
    using floor_log_eq_powr_iff [of "\<bar>x\<bar>" 2 "binade x"] pos b by simp
  have **: "(2::real) powr (real_of_int (binade x) + 1) = 2 powr real_of_int (binade x + 1)"
    by simp
  from * show "2 powi (binade x) \<le> \<bar>x\<bar>" by (simp only: two_powr_powi)
  from * show "\<bar>x\<bar> < 2 powi (binade x + 1)" unfolding ** by (simp only: two_powr_powi)
qed

lemma binade_eqI:
  assumes "2 powi e \<le> \<bar>x\<bar>" and "\<bar>x\<bar> < 2 powi (e + 1)" and "- 1022 \<le> e"
  shows "binade x = e"
proof -
  have "(2::real) powi (- 1022) \<le> 2 powi e"
    using assms(3) by (intro power_int_increasing) simp_all
  with assms(1) have normal: "\<not> \<bar>x\<bar> < 2 powi (- 1022)" by linarith
  then have pos: "0 < \<bar>x\<bar>"
    using two_powi_pos [of "- 1022"] by linarith
  have eq: "(2::real) powr (real_of_int e + 1) = 2 powr real_of_int (e + 1)" by simp
  have "2 powr real_of_int e \<le> \<bar>x\<bar> \<and> \<bar>x\<bar> < 2 powr (real_of_int e + 1)"
    unfolding eq using assms(1,2) by (simp only: two_powr_powi) 
  then have "\<lfloor>log 2 \<bar>x\<bar>\<rfloor> = e"
    using floor_log_eq_powr_iff [of "\<bar>x\<bar>" 2 e] pos by simp
  with normal show ?thesis by (simp add: binade_def)
qed

lemma round_finite_binade:
  assumes "2 powi e \<le> \<bar>x\<bar>" and "\<bar>x\<bar> < 2 powi (e + 1)" and "- 1022 \<le> e"
  shows "round_finite x =
           real_of_int (round_half_even (x / 2 powi (e - 52))) * 2 powi (e - 52)"
  by (simp add: round_finite_def Let_def binade_eqI [OF assms])

lemma round_finite_subnormal:
  assumes "\<bar>x\<bar> < 2 powi (- 1022)"
  shows "round_finite x =
           real_of_int (round_half_even (x / 2 powi (- 1074))) * 2 powi (- 1074)"
  using assms by (simp add: round_finite_def Let_def binade_def)

lemma round_half_even_0 [simp]: "round_half_even 0 = 0"
  using round_half_even_of_int [of 0] by simp

lemma round_finite_0 [simp]: "round_finite 0 = 0"
  by (simp add: round_finite_def)

text \<open>Rounding does not cross a power of two.\<close>

lemma round_finite_ge_powi:
  assumes "2 powi k \<le> x" and "- 1022 \<le> k"
  shows "2 powi k \<le> round_finite x"
proof -
  let ?e = "binade x"
  let ?u = "(2::real) powi (?e - 52)"
  have xpos: "0 < x" using assms(1) two_powi_pos [of k] by linarith
  have "(2::real) powi (- 1022) \<le> 2 powi k"
    using assms(2) by (intro power_int_increasing) simp_all
  with assms(1) xpos have normal: "2 powi (- 1022) \<le> \<bar>x\<bar>" by simp
  from binade_bounds [OF normal] xpos
  have lo: "2 powi ?e \<le> x" and hi: "x < 2 powi (?e + 1)" by simp_all
  from assms(1) hi have "(2::real) powi k < 2 powi (?e + 1)" by linarith
  then have "k < ?e + 1" by (rule two_powi_less_cancel)
  then have ke: "(2::real) powi k \<le> 2 powi ?e"
    by (intro power_int_increasing) simp_all
  have "real_of_int (2 ^ 52) * ?u \<le> x"
    using lo two_powi_52 [of ?e] by simp
  then have "real_of_int (2 ^ 52) \<le> x / ?u" by (simp add: pos_le_divide_eq)
  then have "2 ^ 52 \<le> round_half_even (x / ?u)" by (rule round_half_even_ge)
  then have "real_of_int (2 ^ 52) \<le> real_of_int (round_half_even (x / ?u))"
    by (simp only: of_int_le_iff)
  then have "real_of_int (2 ^ 52) * ?u \<le> real_of_int (round_half_even (x / ?u)) * ?u"
    by (intro mult_right_mono) simp_all
  then have "2 powi ?e \<le> round_finite x"
    using two_powi_52 [of ?e] by (simp add: round_finite_def Let_def)
  with ke show ?thesis by linarith
qed

lemma round_finite_le_powi:
  assumes "x \<le> 2 powi k" and "- 1022 \<le> k"
  shows "round_finite x \<le> 2 powi k"
proof (cases "0 < x")
  case False
  let ?u = "(2::real) powi (binade x - 52)"
  from False have "x / ?u \<le> real_of_int 0" by (simp add: divide_le_0_iff)
  then have "round_half_even (x / ?u) \<le> 0" by (rule round_half_even_le)
  then have "real_of_int (round_half_even (x / ?u)) * ?u \<le> 0"
    by (simp add: mult_le_0_iff)
  then have "round_finite x \<le> 0" by (simp add: round_finite_def Let_def)
  with two_powi_pos [of k] show ?thesis by linarith
next
  case True
  let ?e = "binade x"
  let ?u = "(2::real) powi (?e - 52)"
  let ?n = "nat (k - (?e - 52))"
  have ek: "?e \<le> k"
  proof (cases "\<bar>x\<bar> < 2 powi (- 1022)")
    case True
    then show ?thesis using assms(2) by (simp add: binade_def)
  next
    case False
    with True binade_bounds(1) [of x] have "2 powi ?e \<le> x" by simp
    with assms(1) have "(2::real) powi ?e \<le> 2 powi k" by linarith
    then show ?thesis by (rule two_powi_le_cancel)
  qed
  then have "(2::real) powi (k - (?e - 52)) = 2 ^ ?n"
    by (simp add: power_int_def)
  with two_powi_split [of k "?e - 52"]
  have k: "(2::real) powi k = real_of_int (2 ^ ?n) * ?u" by simp
  with assms(1) have "x / ?u \<le> real_of_int (2 ^ ?n)" by (simp add: pos_divide_le_eq)
  then have "round_half_even (x / ?u) \<le> 2 ^ ?n" by (rule round_half_even_le)
  then have "real_of_int (round_half_even (x / ?u)) \<le> real_of_int (2 ^ ?n)"
    by (simp only: of_int_le_iff)
  then have "real_of_int (round_half_even (x / ?u)) * ?u \<le> real_of_int (2 ^ ?n) * ?u"
    by (intro mult_right_mono) simp_all
  with k show ?thesis by (simp add: round_finite_def Let_def)
qed

lemma ERROR_THRESHOLD_value: "ERROR_THRESHOLD = 3602879701896397 / 2 ^ 56"
  unfolding ERROR_THRESHOLD_def
  by (simp add: round_finite_binade [where e = "- 5"] round_half_even_def Let_def)

lemma upper_bound_value: "round_finite (1 + ERROR_THRESHOLD) = 4728779608739021 / 2 ^ 52"
  unfolding ERROR_THRESHOLD_value
  by (simp add: round_finite_binade [where e = 0] round_half_even_def Let_def)

lemma lower_bound_value: "round_finite (1 - ERROR_THRESHOLD) = 4278419646001971 / 2 ^ 52"
  unfolding ERROR_THRESHOLD_value
  by (simp add: round_finite_binade [where e = "- 1"] round_half_even_def Let_def)

lemma max_double_large: "4 \<le> max_double"
  by (simp add: max_double_def)


lemma round_double_below_half:
  assumes "q \<le> 1 / 2"
  shows "double_lt (round_double q) (4278419646001971 / 2 ^ 52)"
    and "\<not> double_gt (round_double q) (4728779608739021 / 2 ^ 52)"
proof -
  have "q \<le> 2 powi (- 1)" using assms by simp
  then have "round_finite q \<le> 2 powi (- 1)" by (rule round_finite_le_powi) simp
  then have le: "round_finite q \<le> 1 / 2" by simp
  with max_double_large
  show "double_lt (round_double q) (4278419646001971 / 2 ^ 52)"
    and "\<not> double_gt (round_double q) (4728779608739021 / 2 ^ 52)"
    by (simp_all add: round_double_def Let_def)
qed

lemma round_double_above_two:
  assumes "2 \<le> q"
  shows "double_gt (round_double q) (4728779608739021 / 2 ^ 52)"
    and "\<not> double_lt (round_double q) (4278419646001971 / 2 ^ 52)"
proof -
  have "2 powi 1 \<le> q" using assms by simp
  then have "2 powi 1 \<le> round_finite q" by (rule round_finite_ge_powi) simp
  then have ge: "2 \<le> round_finite q" by simp
  with max_double_large
  show "double_gt (round_double q) (4728779608739021 / 2 ^ 52)"
    and "\<not> double_lt (round_double q) (4278419646001971 / 2 ^ 52)"
    by (simp_all add: round_double_def Let_def)
qed

lemma round_double_binade_0:
  assumes "1 \<le> q" and "q < 2"
  shows "round_double q = Finite (real_of_int (round_half_even (q * 2 ^ 52)) / 2 ^ 52)"
proof -
  have rf: "round_finite q = real_of_int (round_half_even (q * 2 ^ 52)) / 2 ^ 52"
    using assms by (simp add: round_finite_binade [where e = 0])
  have "round_finite q \<le> 2 powi 1"
    by (rule round_finite_le_powi) (use assms in simp_all)
  moreover have "2 powi 0 \<le> round_finite q"
    by (rule round_finite_ge_powi) (use assms in simp_all)
  ultimately show ?thesis
    using max_double_large unfolding rf by (simp add: round_double_def Let_def rf)
qed

lemma round_double_binade_minus_1:
  assumes "1 / 2 \<le> q" and "q < 1"
  shows "round_double q = Finite (real_of_int (round_half_even (q * 2 ^ 53)) / 2 ^ 53)"
proof -
  have rf: "round_finite q = real_of_int (round_half_even (q * 2 ^ 53)) / 2 ^ 53"
    using assms by (simp add: round_finite_binade [where e = "- 1"])
  have "round_finite q \<le> 2 powi 0"
    by (rule round_finite_le_powi) (use assms in simp_all)
  moreover have "2 powi (- 1) \<le> round_finite q"
    by (rule round_finite_ge_powi) (use assms in simp_all)
  ultimately show ?thesis
    using max_double_large unfolding rf by (simp add: round_double_def Let_def rf)
qed

lemma ratio_rule_real:
  "double_gt (round_double q) (4728779608739021 / 2 ^ 52)
   \<or> double_lt (round_double q) (4278419646001971 / 2 ^ 52)
   \<longleftrightarrow> q < 17113678584007883 / 2 ^ 54 \<or> 9457559217478043 / 2 ^ 53 \<le> q"
proof -
  consider "q < 1 / 2" | "1 / 2 \<le> q" "q < 1" | "1 \<le> q" "q < 2" | "2 \<le> q"
    by linarith
  then show ?thesis
  proof cases
    case 1
    then have "q \<le> 1 / 2" by simp
    from round_double_below_half [OF this] 1 show ?thesis by simp
  next
    case 2
    let ?r = "round_half_even (q * 2 ^ 53)"
    have "q * 2 ^ 53 \<le> real_of_int (2 ^ 53)" using 2 by simp
    then have "?r \<le> 2 ^ 53" by (rule round_half_even_le)
    then have "real_of_int ?r \<le> 2 ^ 53" by (metis of_int_le_iff of_int_numeral of_int_power)
    then have no_gt: "\<not> real_of_int ?r / 2 ^ 53 > 4728779608739021 / 2 ^ 52" by simp
    have "real_of_int ?r / 2 ^ 53 < 4278419646001971 / 2 ^ 52 \<longleftrightarrow> ?r < 8556839292003942"
      by (simp add: field_simps)
    also have "\<dots> \<longleftrightarrow> q * 2 ^ 53 < real_of_int 8556839292003942 - 1 / 2"
      by (rule round_half_even_lt_even) simp
    also have "\<dots> \<longleftrightarrow> q < 17113678584007883 / 2 ^ 54" by (simp add: field_simps)
    finally show ?thesis
      using 2 no_gt by (simp add: round_double_binade_minus_1)
  next
    case 3
    let ?r = "round_half_even (q * 2 ^ 52)"
    have "real_of_int (2 ^ 52) \<le> q * 2 ^ 52" using 3 by simp
    then have "2 ^ 52 \<le> ?r" by (rule round_half_even_ge)
    then have "2 ^ 52 \<le> real_of_int ?r" by (metis of_int_le_iff of_int_numeral of_int_power)
    then have no_lt: "\<not> real_of_int ?r / 2 ^ 52 < 4278419646001971 / 2 ^ 52" by simp
    have "real_of_int ?r / 2 ^ 52 > 4728779608739021 / 2 ^ 52 \<longleftrightarrow> 4728779608739021 < ?r"
      by simp
    also have "\<dots> \<longleftrightarrow> real_of_int 4728779608739021 + 1 / 2 \<le> q * 2 ^ 52"
      by (rule round_half_even_gt_odd) simp
    also have "\<dots> \<longleftrightarrow> 9457559217478043 / 2 ^ 53 \<le> q" by (simp add: field_simps)
    finally show ?thesis
      using 3 no_lt by (simp add: round_double_binade_0)
  next
    case 4
    from round_double_above_two [OF 4] 4 show ?thesis by simp
  qed
qed

lemma RatioOutOfTolerance_real:
  "c \<noteq> 0 \<Longrightarrow>
   RatioOutOfTolerance b c \<longleftrightarrow>
     b / c < 17113678584007883 / 2 ^ 54 \<or> 9457559217478043 / 2 ^ 53 \<le> b / c"
  unfolding RatioOutOfTolerance_def double_div_def upper_bound_value lower_bound_value Let_def
  using ratio_rule_real [of "b / c"] by simp

lemma RatioOutOfTolerance_zero: "RatioOutOfTolerance b 0 \<longleftrightarrow> b \<noteq> 0"
  by (simp add: RatioOutOfTolerance_def double_div_def)

lemma RatioOutOfTolerance_same: "\<not> RatioOutOfTolerance b b"
  by (cases "b = 0") (simp_all add: RatioOutOfTolerance_zero RatioOutOfTolerance_real)


subsection \<open>The arc cosine near one\<close>





subsection \<open>Matrices and the geometric error\<close>

lemma upt_0_4: "[0..<4] = [0, 1, 2, 3]"
  by (simp add: upt_rec)

lemma upt_0_3: "[0..<3] = [0, 1, 2]"
  by (simp add: upt_rec)

lemma MatrixFromArray_nth:
  assumes "i < 4" and "j < 4"
  shows "GetElement (MatrixFromArray a) i j = a ! (4 * i + j)"
proof -
  from assms have "i \<in> {0, 1, 2, 3}" and "j \<in> {0, 1, 2, 3}" by auto
  then show ?thesis
    by (auto simp: MatrixFromArray_def upt_0_4 SetElement_def GetElement_def)
qed

lemma GetPositionDifference_same: "GetPositionDifference a a = 0"
  by (simp add: GetPositionDifference_def)

lemma Trace3_orthonormal: "OrthonormalRotation m \<Longrightarrow> Trace3 (RelativeRotation m m) = 3"
  by (simp add: OrthonormalRotation_def Trace3_def upt_0_3)

lemma GetOrientationDifference_same:
  "OrthonormalRotation m \<Longrightarrow> GetOrientationDifference m m = Finite 0"
  by (simp add: GetOrientationDifference_def Trace3_orthonormal)

subsection \<open>The ratio rule and the loop over the components\<close>

text \<open>The loop visits every index from \<open>i\<close> to \<open>n - 1\<close>, whatever the earlier ones gave.\<close>

lemma CompareElements_concat:
  "CompareElements name i n bl c = concat (map (CompareElement name bl c) [i..<n])"
proof (induction name i n bl c rule: CompareElements.induct)
  case (1 name i n bl c)
  show ?case
  proof (cases "i < n")
    case True
    then have "[i..<n] = i # [Suc i..<n]" by (simp add: upt_rec)
    with True "1" show ?thesis
      by (simp add: CompareElements.simps [of name i])
  next
    case False
    then show ?thesis by (simp add: CompareElements.simps [of name i])
  qed
qed

lemma CompareElements_same: "CompareElements name i n v v = []"
  by (simp add: CompareElements_concat CompareElement_def RatioOutOfTolerance_same)

lemma CompareElements_length:
  "length (CompareElements name 0 n bl c) =
     length (filter (\<lambda>k. RatioOutOfTolerance (bl ! k) (c ! k)) [0..<n])"
  unfolding CompareElements_concat
  by (induction n) (simp_all add: CompareElement_def)

lemma CompareElements_member:
  "ElementMismatch name k x y \<in> set (CompareElements name 0 n bl c) \<longleftrightarrow>
     k < n \<and> x = c ! k \<and> y = bl ! k \<and> RatioOutOfTolerance (bl ! k) (c ! k)"
  unfolding CompareElements_concat
  by (auto simp: CompareElement_def split: if_splits)

lemma CompareElements_one:
  assumes "i < n" and "RatioOutOfTolerance (v ! i) x" and "length v = n"
  shows "CompareElements name 0 n v (v[i := x]) = [ElementMismatch name i x (v ! i)]"
proof -
  have parts: "[0..<n] = [0..<i] @ i # [Suc i..<n]"
    using assms(1) by (metis less_imp_add_positive upt_add_eq_append upt_rec zero_le)
  have before: "concat (map (CompareElement name v (v[i := x])) [0..<i]) = []"
    by (simp add: CompareElement_def RatioOutOfTolerance_same)
  have after: "concat (map (CompareElement name v (v[i := x])) [Suc i..<n]) = []"
    by (simp add: CompareElement_def RatioOutOfTolerance_same)
  have at: "CompareElement name v (v[i := x]) i = [ElementMismatch name i x (v ! i)]"
    using assms by (simp add: CompareElement_def)
  show ?thesis
    unfolding CompareElements_concat parts by (simp add: before after at)
qed

subsection \<open>Lookups in an edited document\<close>

lemma find_map_first_same:
  "(\<And>x. P x \<Longrightarrow> P (f x)) \<Longrightarrow> find P (map_first P f xs) = map_option f (find P xs)"
  by (induction xs) auto

lemma find_map_first_other:
  "(\<And>x. Q (f x) = Q x) \<Longrightarrow> (\<And>x. P x \<Longrightarrow> \<not> Q x) \<Longrightarrow>
   find Q (map_first P f xs) = find Q xs"
  by (induction xs) auto

lemma elem_name_in_section [simp]: "elem_name (in_section n f e) = elem_name e"
  by (simp add: in_section_def)

lemma elem_name_remove_attribute [simp]: "elem_name (remove_attribute n e) = elem_name e"
  by (simp add: remove_attribute_def)

lemma elem_name_set_attribute [simp]: "elem_name (set_attribute n v e) = elem_name e"
  by (simp add: set_attribute_def)

lemma Find_in_section_same:
  "(\<And>x. elem_name (f x) = elem_name x) \<Longrightarrow>
   FindNestedElementWithName (in_section n f e) n =
     map_option f (FindNestedElementWithName e n)"
  by (simp add: FindNestedElementWithName_def in_section_def find_map_first_same)

lemma Find_in_section_other:
  "(\<And>x. elem_name (f x) = elem_name x) \<Longrightarrow> m \<noteq> n \<Longrightarrow>
   FindNestedElementWithName (in_section n f e) m = FindNestedElementWithName e m"
  unfolding FindNestedElementWithName_def in_section_def element.sel
  by (rule find_map_first_other) auto

lemma map_of_filter_same: "map_of (filter (\<lambda>kv. fst kv \<noteq> n) xs) n = None"
  by (induction xs) auto

lemma map_of_filter_other:
  "m \<noteq> n \<Longrightarrow> map_of (filter (\<lambda>kv. fst kv \<noteq> n) xs) m = map_of xs m"
  by (induction xs) auto

lemma GetVectorAttribute_remove_same:
  "GetVectorAttribute (remove_attribute n e) n len = None"
  by (simp add: GetVectorAttribute_def remove_attribute_def map_of_filter_same)

lemma GetScalarAttribute_remove_other:
  "m \<noteq> n \<Longrightarrow> GetScalarAttribute (remove_attribute n e) m = GetScalarAttribute e m"
  by (simp add: GetScalarAttribute_def remove_attribute_def map_of_filter_other)

lemma GetVectorAttribute_set_same:
  "GetVectorAttribute (set_attribute n (Vector v) e) n len =
     (if length v = len then Some v else None)"
  by (simp add: GetVectorAttribute_def set_attribute_def)

lemma GetScalarAttribute_set_other:
  "m \<noteq> n \<Longrightarrow> GetScalarAttribute (set_attribute n v e) m = GetScalarAttribute e m"
  by (simp add: GetScalarAttribute_def set_attribute_def map_of_filter_other)

lemma remove_PRE_sections:
  "FindNestedElementWithName (remove_PRE d) ''CalibrationResults'' =
     FindNestedElementWithName d ''CalibrationResults''"
  "FindNestedElementWithName (remove_PRE d) ''ErrorReports'' =
     map_option (in_section ''PointReconstructionErrorAnalysis'' (remove_attribute ''PRE''))
       (FindNestedElementWithName d ''ErrorReports'')"
  by (simp_all add: remove_PRE_def Find_in_section_same Find_in_section_other)

lemma CalibrationResultsBlock_cong:
  "FindNestedElementWithName b' ''CalibrationResults'' =
     FindNestedElementWithName b ''CalibrationResults'' \<Longrightarrow>
   FindNestedElementWithName c' ''CalibrationResults'' =
     FindNestedElementWithName c ''CalibrationResults'' \<Longrightarrow>
   CalibrationResultsBlock b' c' t r = CalibrationResultsBlock b c t r"
  by (simp add: CalibrationResultsBlock_def split: option.splits)

lemma PointLineDistanceErrorAnalysisBlock_cong:
  "FindNestedElementWithName b' ''PointLineDistanceErrorAnalysis'' =
     FindNestedElementWithName b ''PointLineDistanceErrorAnalysis'' \<Longrightarrow>
   FindNestedElementWithName c' ''PointLineDistanceErrorAnalysis'' =
     FindNestedElementWithName c ''PointLineDistanceErrorAnalysis'' \<Longrightarrow>
   PointLineDistanceErrorAnalysisBlock b' c' = PointLineDistanceErrorAnalysisBlock b c"
  by (simp add: PointLineDistanceErrorAnalysisBlock_def split: option.splits)

subsection \<open>A document compared with itself\<close>

lemma CompareTransforms_same:
  "OrthonormalRotation (MatrixFromArray a) \<Longrightarrow> 0 \<le> t \<Longrightarrow> 0 \<le> r \<Longrightarrow>
   CompareTransforms a a t r = []"
  by (simp add: CompareTransforms_def GetPositionDifference_same
      GetOrientationDifference_same)

lemma CalibrationResultsBlock_same:
  "valid_transform d \<Longrightarrow> 0 \<le> t \<Longrightarrow> 0 \<le> r \<Longrightarrow>
   CalibrationResultsBlock d d t r = Fallthrough []"
  by (auto simp: valid_transform_def CalibrationResultsBlock_def CalibrationTransformBlock_def
      CompareTransformImageToProbe_def CompareTransforms_same split: option.splits)

lemma CompareConfidenceLevel_same:
  "GetScalarAttribute a ''ValidationDataConfidenceLevel'' \<noteq> None \<Longrightarrow>
   CompareConfidenceLevel label a a = []"
  by (auto simp: CompareConfidenceLevel_def RatioOutOfTolerance_same)

lemma CompareVectorAttribute_same:
  "GetVectorAttribute a name n \<noteq> None \<Longrightarrow> CompareVectorAttribute name n a a = []"
  by (auto simp: CompareVectorAttribute_def CompareElements_same)

lemma PointReconstructionErrorAnalysisBlock_same:
  "valid_analysis ''PointReconstructionErrorAnalysis'' ''PRE'' 9 er \<Longrightarrow>
   PointReconstructionErrorAnalysisBlock er er = Fallthrough []"
  by (auto simp: valid_analysis_def PointReconstructionErrorAnalysisBlock_def
      CompareConfidenceLevel_same CompareVectorAttribute_same split: option.splits)

lemma PointLineDistanceErrorAnalysisBlock_same:
  "valid_analysis ''PointLineDistanceErrorAnalysis'' ''PLDE'' 3 er \<Longrightarrow>
   PointLineDistanceErrorAnalysisBlock er er = Fallthrough []"
  by (auto simp: valid_analysis_def PointLineDistanceErrorAnalysisBlock_def
      CompareConfidenceLevel_same CompareVectorAttribute_same split: option.splits)

lemma CompareFailures_same:
  "valid_document d \<Longrightarrow> 0 \<le> t \<Longrightarrow> 0 \<le> r \<Longrightarrow> CompareFailures (Some d) (Some d) t r = []"
  by (auto simp: valid_document_def CompareFailures_def CalibrationResultsBlock_same
      ErrorReportsBlock_def PointReconstructionErrorAnalysisBlock_same
      PointLineDistanceErrorAnalysisBlock_same split: option.splits)

subsection \<open>One attribute removed or changed in the current document\<close>

lemma CompareFailures_remove_PRE:
  assumes "valid_document d" and "0 \<le> t" and "0 \<le> r"
  shows "CompareFailures (Some d) (Some (remove_PRE d)) t r =
           [AttributeMissing Current ''PRE'']"
proof -
  from assms(1) obtain er a where
    tr: "valid_transform d" and
    er: "FindNestedElementWithName d ''ErrorReports'' = Some er" and
    a: "FindNestedElementWithName er ''PointReconstructionErrorAnalysis'' = Some a" and
    pre: "GetVectorAttribute a ''PRE'' 9 \<noteq> None" and
    conf: "GetScalarAttribute a ''ValidationDataConfidenceLevel'' \<noteq> None" and
    plde: "valid_analysis ''PointLineDistanceErrorAnalysis'' ''PLDE'' 3 er"
    by (auto simp: valid_document_def valid_analysis_def split: option.splits)
  let ?er' = "in_section ''PointReconstructionErrorAnalysis'' (remove_attribute ''PRE'') er"
  have cr: "CalibrationResultsBlock d (remove_PRE d) t r = Fallthrough []"
    using tr assms(2,3)
    by (simp add: CalibrationResultsBlock_cong [OF refl remove_PRE_sections(1)]
        CalibrationResultsBlock_same)
  have pre_block: "PointReconstructionErrorAnalysisBlock er ?er' =
      Fallthrough [AttributeMissing Current ''PRE'']"
    using a pre conf
    by (auto simp: PointReconstructionErrorAnalysisBlock_def Find_in_section_same
        CompareVectorAttribute_def GetVectorAttribute_remove_same CompareConfidenceLevel_def
        GetScalarAttribute_remove_other RatioOutOfTolerance_same)
  have plde_block: "PointLineDistanceErrorAnalysisBlock er ?er' = Fallthrough []"
    using plde
    by (simp add: PointLineDistanceErrorAnalysisBlock_cong [of er er ?er' er]
        Find_in_section_other PointLineDistanceErrorAnalysisBlock_same)
  show ?thesis
    by (simp add: CompareFailures_def cr ErrorReportsBlock_def er remove_PRE_sections(2)
        pre_block plde_block)
qed

lemma CompareFailures_set_PRE:
  assumes "valid_document d" and "0 \<le> t" and "0 \<le> r"
    and "document_PRE d = Some v" and "i < 9" and "RatioOutOfTolerance (v ! i) x"
  shows "CompareFailures (Some d) (Some (set_PRE (v[i := x]) d)) t r =
           [ElementMismatch ''PRE'' i x (v ! i)]"
proof -
  from assms(1,4) obtain er a where
    tr: "valid_transform d" and
    er: "FindNestedElementWithName d ''ErrorReports'' = Some er" and
    a: "FindNestedElementWithName er ''PointReconstructionErrorAnalysis'' = Some a" and
    pre: "GetVectorAttribute a ''PRE'' 9 = Some v" and
    conf: "GetScalarAttribute a ''ValidationDataConfidenceLevel'' \<noteq> None" and
    plde: "valid_analysis ''PointLineDistanceErrorAnalysis'' ''PLDE'' 3 er"
    by (auto simp: valid_document_def valid_analysis_def document_PRE_def
        split: option.splits)
  from pre have len: "length v = 9"
    by (auto simp: GetVectorAttribute_def split: option.splits attr_value.splits if_splits)
  let ?er' = "in_section ''PointReconstructionErrorAnalysis''
    (set_attribute ''PRE'' (Vector (v[i := x]))) er"
  have sections:
    "FindNestedElementWithName (set_PRE (v[i := x]) d) ''CalibrationResults'' =
       FindNestedElementWithName d ''CalibrationResults''"
    "FindNestedElementWithName (set_PRE (v[i := x]) d) ''ErrorReports'' = Some ?er'"
    using er by (simp_all add: set_PRE_def Find_in_section_same Find_in_section_other)
  have cr: "CalibrationResultsBlock d (set_PRE (v[i := x]) d) t r = Fallthrough []"
    using tr assms(2,3)
    by (simp add: CalibrationResultsBlock_cong [OF refl sections(1)] CalibrationResultsBlock_same)
  have pre_block: "PointReconstructionErrorAnalysisBlock er ?er' =
      Fallthrough [ElementMismatch ''PRE'' i x (v ! i)]"
    using a pre conf len assms(5,6)
    by (auto simp: PointReconstructionErrorAnalysisBlock_def Find_in_section_same
        CompareVectorAttribute_def GetVectorAttribute_set_same CompareConfidenceLevel_def
        GetScalarAttribute_set_other RatioOutOfTolerance_same CompareElements_one)
  have plde_block: "PointLineDistanceErrorAnalysisBlock er ?er' = Fallthrough []"
    using plde
    by (simp add: PointLineDistanceErrorAnalysisBlock_cong [of er er ?er' er]
        Find_in_section_other PointLineDistanceErrorAnalysisBlock_same)
  show ?thesis
    by (simp add: CompareFailures_def cr ErrorReportsBlock_def er sections(2)
        pre_block plde_block)
qed

subsection \<open>The example documents\<close>

lemma identity_array_orthonormal: "OrthonormalRotation (MatrixFromArray identity_array)"
  by (simp add: OrthonormalRotation_def RelativeRotation_def upt_0_3 MatrixFromArray_nth
      identity_array_def)

lemma valid_example_document: "valid_document example_document"
  by (simp add: valid_document_def valid_transform_def valid_analysis_def
      example_document_def example_error_reports_def example_transform_def
      example_analysis_def FindNestedElementWithName_def GetVectorAttribute_def
      GetScalarAttribute_def identity_array_orthonormal [unfolded identity_array_def]
      identity_array_def)

lemmas example_defs =
  example_document_def example_error_reports_def example_transform_def example_analysis_def
  document_without_PRE_section_def error_reports_without_PRE_section_def
  FindNestedElementWithName_def GetVectorAttribute_def GetScalarAttribute_def

lemma example_sections:
  "FindNestedElementWithName example_document ''ErrorReports'' = Some example_error_reports"
  "FindNestedElementWithName document_without_PRE_section ''ErrorReports'' =
     Some error_reports_without_PRE_section"
  "FindNestedElementWithName error_reports_without_PRE_section
     ''PointReconstructionErrorAnalysis'' = None"
  "FindNestedElementWithName example_error_reports ''PointReconstructionErrorAnalysis'' =
     Some (example_analysis ''PointReconstructionErrorAnalysis'' ''PRE''
       [1, 1, 1, 1, 1, 1, 1, 1, 1])"
  by (simp_all add: example_document_def example_error_reports_def example_transform_def
      example_analysis_def document_without_PRE_section_def
      error_reports_without_PRE_section_def FindNestedElementWithName_def)

lemma document_PRE_example:
  "document_PRE example_document = Some [1, 1, 1, 1, 1, 1, 1, 1, 1]"
  by (simp add: document_PRE_def example_defs)

lemma CalibrationResultsBlock_example:
  "CalibrationResultsBlock example_document document_without_PRE_section 0 0 = Fallthrough []"
  by (simp add: CalibrationResultsBlock_def CalibrationTransformBlock_def
      CompareTransformImageToProbe_def example_defs
      CompareTransforms_same [OF identity_array_orthonormal, unfolded identity_array_def]
      identity_array_def)

lemma CompareElements_PLDE_example:
  "CompareElements ''PLDE'' 0 3 [1, 1, 1] [2, 1, 1] = [ElementMismatch ''PLDE'' 0 2 1]"
  using CompareElements_one [of 0 3 "[1, 1, 1]" 2 "''PLDE''"]
  by (simp add: RatioOutOfTolerance_real)

lemma PointLineDistanceErrorAnalysisBlock_example:
  "PointLineDistanceErrorAnalysisBlock example_error_reports
     error_reports_without_PRE_section = Fallthrough [ElementMismatch ''PLDE'' 0 2 1]"
  by (simp add: PointLineDistanceErrorAnalysisBlock_def CompareVectorAttribute_def
      CompareConfidenceLevel_def example_defs CompareElements_PLDE_example
      RatioOutOfTolerance_same)

lemma CompareFailures_example_without_PRE_section:
  "CompareFailures (Some example_document) (Some document_without_PRE_section) 0 0 =
     [SectionMissing Current ''PointReconstructionErrorAnalysis'']"
  by (simp add: CompareFailures_def CalibrationResultsBlock_example ErrorReportsBlock_def
      PointReconstructionErrorAnalysisBlock_def example_sections)

lemma GetPositionDifference_example:
  "GetPositionDifference (MatrixFromArray identity_array)
     (MatrixFromArray (quarter_turn_array 3 4 0)) = 5"
  by (simp add: GetPositionDifference_def MatrixFromArray_nth identity_array_def
      quarter_turn_array_def)

lemma GetOrientationDifference_example:
  "GetOrientationDifference (MatrixFromArray identity_array)
     (MatrixFromArray (quarter_turn_array x y z)) = Finite 90"
  by (simp add: GetOrientationDifference_def Trace3_def RelativeRotation_def upt_0_3
      MatrixFromArray_nth identity_array_def quarter_turn_array_def)

subsection \<open>A missing attribute, in general\<close>

lemma CompareFailures_baseline_without_PRE:
  assumes "valid_document d" and "0 \<le> t" and "0 \<le> r"
    and "cur = d \<or> cur = remove_PRE d"
  shows "CompareFailures (Some (remove_PRE d)) (Some cur) t r =
           [AttributeMissing Baseline ''PRE'']"
proof -
  from assms(1) obtain er a where
    tr: "valid_transform d" and
    er: "FindNestedElementWithName d ''ErrorReports'' = Some er" and
    a: "FindNestedElementWithName er ''PointReconstructionErrorAnalysis'' = Some a" and
    conf: "GetScalarAttribute a ''ValidationDataConfidenceLevel'' \<noteq> None" and
    plde: "valid_analysis ''PointLineDistanceErrorAnalysis'' ''PLDE'' 3 er"
    by (auto simp: valid_document_def valid_analysis_def split: option.splits)
  let ?er' = "in_section ''PointReconstructionErrorAnalysis'' (remove_attribute ''PRE'') er"
  from assms(4) obtain erc where
    cur_cr: "FindNestedElementWithName cur ''CalibrationResults'' =
       FindNestedElementWithName d ''CalibrationResults''" and
    cur_er: "FindNestedElementWithName cur ''ErrorReports'' = Some erc" and
    erc: "erc = er \<or> erc = ?er'"
    using er by (auto simp: remove_PRE_sections)
  have cr: "CalibrationResultsBlock (remove_PRE d) cur t r = Fallthrough []"
    using tr assms(2,3)
    by (simp add: CalibrationResultsBlock_cong [OF remove_PRE_sections(1) cur_cr]
        CalibrationResultsBlock_same)
  have pre_block: "PointReconstructionErrorAnalysisBlock ?er' erc =
      Fallthrough [AttributeMissing Baseline ''PRE'']"
    using a conf erc
    by (auto simp: PointReconstructionErrorAnalysisBlock_def Find_in_section_same
        CompareVectorAttribute_def GetVectorAttribute_remove_same CompareConfidenceLevel_def
        GetScalarAttribute_remove_other RatioOutOfTolerance_same)
  have "FindNestedElementWithName erc ''PointLineDistanceErrorAnalysis'' =
      FindNestedElementWithName er ''PointLineDistanceErrorAnalysis''"
    using erc by (auto simp: Find_in_section_other)
  then have plde_block: "PointLineDistanceErrorAnalysisBlock ?er' erc = Fallthrough []"
    using plde
    by (simp add: PointLineDistanceErrorAnalysisBlock_cong [of ?er' er erc er]
        Find_in_section_other PointLineDistanceErrorAnalysisBlock_same)
  show ?thesis
    by (simp add: CompareFailures_def cr ErrorReportsBlock_def cur_er remove_PRE_sections(2) er
        pre_block plde_block)
qed

lemma ErrorReportsBlock_current_without_PRE:
  assumes "FindNestedElementWithName bl ''ErrorReports'' = Some erb"
    and "FindNestedElementWithName cur ''ErrorReports'' = Some erc"
    and "FindNestedElementWithName erb ''PointReconstructionErrorAnalysis'' = Some pb"
    and "FindNestedElementWithName erc ''PointReconstructionErrorAnalysis'' = Some pc"
    and "GetVectorAttribute pb ''PRE'' 9 \<noteq> None"
    and "GetVectorAttribute pc ''PRE'' 9 = None"
  shows "outcome_failures (ErrorReportsBlock bl cur) =
           [AttributeMissing Current ''PRE''] @ CompareConfidenceLevel ''PRE'' pb pc
           @ outcome_failures (PointLineDistanceErrorAnalysisBlock erb erc)"
  using assms
  by (auto simp: ErrorReportsBlock_def PointReconstructionErrorAnalysisBlock_def
      CompareVectorAttribute_def split: outcome.splits)

lemma CompareFailures_parts:
  "CompareFailures (Some bl) (Some cur) t r =
     outcome_failures (CalibrationResultsBlock bl cur t r)
     @ (case CalibrationResultsBlock bl cur t r of Return fs \<Rightarrow> []
        | Fallthrough fs \<Rightarrow> outcome_failures (ErrorReportsBlock bl cur))"
  by (simp add: CompareFailures_def split: outcome.splits)

subsection \<open>The conversion of the thresholds\<close>

lemma truncate_bounds:
  "\<bar>real_of_int (truncate x)\<bar> \<le> \<bar>x\<bar>"
  "\<bar>x\<bar> < \<bar>real_of_int (truncate x)\<bar> + 1"
  "0 \<le> real_of_int (truncate x) * x"
proof -
  show "\<bar>real_of_int (truncate x)\<bar> \<le> \<bar>x\<bar>"
  proof (cases "0 \<le> x")
    case True
    then have "truncate x = \<lfloor>x\<rfloor>" by (simp add: truncate_def)
    with True show ?thesis by (simp; linarith)
  next
    case False
    then have "truncate x = \<lceil>x\<rceil>" by (simp add: truncate_def)
    with False show ?thesis by (simp; linarith)
  qed
  show "\<bar>x\<bar> < \<bar>real_of_int (truncate x)\<bar> + 1"
  proof (cases "0 \<le> x")
    case True
    then have "truncate x = \<lfloor>x\<rfloor>" by (simp add: truncate_def)
    with True show ?thesis by (simp; linarith)
  next
    case False
    then have "truncate x = \<lceil>x\<rceil>" by (simp add: truncate_def)
    with False show ?thesis by (simp; linarith)
  qed
  show "0 \<le> real_of_int (truncate x) * x"
  proof (cases "0 \<le> x")
    case True
    then show ?thesis by (simp add: truncate_def)
  next
    case False
    then have "real_of_int \<lceil>x\<rceil> \<le> 0" by (simp add: ceiling_le_zero)
    with False show ?thesis by (simp add: truncate_def mult_nonpos_nonpos)
  qed
qed

lemma truncate_of_int [simp]: "truncate (real_of_int n) = n"
  by (simp add: truncate_def)

lemma double_to_int_of_int:
  "double_to_int x = Some n \<Longrightarrow> double_to_int (real_of_int n) = Some n"
  by (auto simp: double_to_int_def split: if_splits)

subsection \<open>More example documents\<close>

lemma without_PRE_attribute_sections:
  "FindNestedElementWithName document_without_PRE_attribute ''ErrorReports'' =
     Some error_reports_without_PRE_attribute"
  "FindNestedElementWithName error_reports_without_PRE_attribute
     ''PointReconstructionErrorAnalysis'' = Some analysis_without_PRE_attribute"
  "GetVectorAttribute analysis_without_PRE_attribute ''PRE'' 9 = None"
  "GetVectorAttribute (example_analysis ''PointReconstructionErrorAnalysis'' ''PRE''
     [1, 1, 1, 1, 1, 1, 1, 1, 1]) ''PRE'' 9 \<noteq> None"
  by (simp_all add: document_without_PRE_attribute_def error_reports_without_PRE_attribute_def
      analysis_without_PRE_attribute_def example_transform_def example_analysis_def
      FindNestedElementWithName_def GetVectorAttribute_def)

lemma CompareConfidenceLevel_example:
  "CompareConfidenceLevel ''PRE''
     (example_analysis ''PointReconstructionErrorAnalysis'' ''PRE'' [1, 1, 1, 1, 1, 1, 1, 1, 1])
     analysis_without_PRE_attribute = [ConfidenceLevelMismatch ''PRE'' (1 / 2) (95 / 100)]"
  by (simp add: CompareConfidenceLevel_def GetScalarAttribute_def example_analysis_def
      analysis_without_PRE_attribute_def RatioOutOfTolerance_real)

lemma PointLineDistanceErrorAnalysisBlock_without_PRE_attribute:
  "PointLineDistanceErrorAnalysisBlock example_error_reports
     error_reports_without_PRE_attribute = Fallthrough [ElementMismatch ''PLDE'' 0 2 1]"
  by (simp add: PointLineDistanceErrorAnalysisBlock_def CompareVectorAttribute_def
      CompareConfidenceLevel_def example_defs error_reports_without_PRE_attribute_def
      analysis_without_PRE_attribute_def CompareElements_PLDE_example
      RatioOutOfTolerance_same)

lemma double_to_int_example: "double_to_int (19 / 10) = Some 1"
  by (simp add: double_to_int_def truncate_def)

lemma CompareTransforms_translated:
  "CompareTransforms identity_array [1, 0, 0, 3 / 2,  0, 1, 0, 0,  0, 0, 1, 0,  0, 0, 0, 1] 1 1
     = [TranslationErrorExceeded (3 / 2) 1]"
  by (simp add: CompareTransforms_def GetPositionDifference_def GetOrientationDifference_def
      Trace3_def RelativeRotation_def upt_0_3 MatrixFromArray_nth identity_array_def
      real_sqrt_divide)

lemma translated_sections:
  "FindNestedElementWithName (translated_document x) ''ErrorReports'' =
     FindNestedElementWithName example_document ''ErrorReports''"
  "FindNestedElementWithName (translated_document x) ''CalibrationResults'' =
     Some (example_transform [1, 0, 0, x,  0, 1, 0, 0,  0, 0, 1, 0,  0, 0, 0, 1])"
  "FindNestedElementWithName example_document ''CalibrationResults'' =
     Some (example_transform identity_array)"
  by (simp_all add: translated_document_def example_document_def example_transform_def
      example_error_reports_def FindNestedElementWithName_def)

lemma ErrorReportsBlock_cong:
  "FindNestedElementWithName b' ''ErrorReports'' =
     FindNestedElementWithName b ''ErrorReports'' \<Longrightarrow>
   FindNestedElementWithName c' ''ErrorReports'' =
     FindNestedElementWithName c ''ErrorReports'' \<Longrightarrow>
   ErrorReportsBlock b' c' = ErrorReportsBlock b c"
  by (simp add: ErrorReportsBlock_def split: option.splits)

lemma ErrorReportsBlock_same:
  "valid_document d \<Longrightarrow> ErrorReportsBlock d d = Fallthrough []"
  by (auto simp: valid_document_def ErrorReportsBlock_def
      PointReconstructionErrorAnalysisBlock_same PointLineDistanceErrorAnalysisBlock_same
      split: option.splits)

lemma length_identity_array: "length identity_array = 16"
  by (simp add: identity_array_def)

lemma CalibrationTransformBlock_example:
  "length a = 16 \<Longrightarrow> length b = 16 \<Longrightarrow>
   CalibrationTransformBlock (example_transform a) (example_transform b) t r =
     Fallthrough (CompareTransforms a b t r)"
  by (simp add: CalibrationTransformBlock_def example_transform_def
      FindNestedElementWithName_def CompareTransformImageToProbe_def GetVectorAttribute_def)

lemma CompareFailures_translated:
  "CompareFailures (Some example_document) (Some (translated_document (3 / 2))) 1 1 =
     [TranslationErrorExceeded (3 / 2) 1]"
proof -
  have "CalibrationTransformBlock (example_transform identity_array)
      (example_transform [1, 0, 0, 3 / 2,  0, 1, 0, 0,  0, 0, 1, 0,  0, 0, 0, 1]) 1 1 =
      Fallthrough [TranslationErrorExceeded (3 / 2) 1]"
    by (simp add: CalibrationTransformBlock_example CompareTransforms_translated
        length_identity_array)
  then have cr: "CalibrationResultsBlock example_document (translated_document (3 / 2)) 1 1 =
      Fallthrough [TranslationErrorExceeded (3 / 2) 1]"
    by (simp add: CalibrationResultsBlock_def translated_sections)
  have er: "ErrorReportsBlock example_document (translated_document (3 / 2)) = Fallthrough []"
    by (simp add: ErrorReportsBlock_cong [OF refl translated_sections(1)]
        ErrorReportsBlock_same valid_example_document)
  show ?thesis
    by (simp add: CompareFailures_def cr er)
qed

subsection \<open>Representable numbers\<close>

lemma representable_0: "representable 0"
  by (simp add: representable_def round_double_def max_double_def)

lemma representable_normal:
  assumes "2 ^ 52 \<le> m" and "m < 2 ^ 53" and "- 1022 \<le> e" and "e \<le> 1023"
  shows "representable (real_of_int m * 2 powi (e - 52))"
proof -
  let ?u = "(2::real) powi (e - 52)"
  let ?x = "real_of_int m * ?u"
  have m: "(2::real) ^ 52 \<le> real_of_int m" "real_of_int m < 2 ^ 53"
    using assms(1,2) by (metis of_int_le_iff of_int_numeral of_int_power,
        metis of_int_less_iff of_int_numeral of_int_power)
  have pos: "0 < ?x" using m(1) by (simp add: zero_less_mult_iff)
  have lo: "2 powi e \<le> \<bar>?x\<bar>"
    using m(1) pos by (simp add: two_powi_52 [of e])
  have hi: "\<bar>?x\<bar> < 2 powi (e + 1)"
    using m(2) pos by (simp add: two_powi_53 [of e])
  have "round_finite ?x = real_of_int (round_half_even (?x / ?u)) * ?u"
    using lo hi assms(3) by (rule round_finite_binade)
  then have rf: "round_finite ?x = ?x" by simp
  have "real_of_int m \<le> 2 ^ 53 - 1"
  proof -
    from assms(2) have "m \<le> 2 ^ 53 - 1" by simp
    then have "real_of_int m \<le> real_of_int (2 ^ 53 - 1)" by (simp only: of_int_le_iff)
    then show ?thesis by simp
  qed
  moreover have "?u \<le> 2 powi 971"
    using assms(4) by (intro power_int_increasing) simp_all
  ultimately have "?x \<le> (2 ^ 53 - 1) * 2 powi 971"
    by (intro mult_mono) simp_all
  then have "?x \<le> max_double" by (simp add: max_double_def)
  with pos rf show ?thesis
    by (simp add: representable_def round_double_def Let_def)
qed

lemma representable_examples:
  "representable 1" "representable 3" "representable 4" "representable 5"
  "representable 9" "representable 16" "representable 25"
  "representable (1 / 2 ^ 30)" "representable (1 / 2 ^ 60)"
  using representable_normal [of "2 ^ 52" 0]
    representable_normal [of "3 * 2 ^ 51" 1]
    representable_normal [of "2 ^ 52" 2]
    representable_normal [of "5 * 2 ^ 50" 2]
    representable_normal [of "9 * 2 ^ 49" 3]
    representable_normal [of "2 ^ 52" 4]
    representable_normal [of "25 * 2 ^ 48" 4]
    representable_normal [of "2 ^ 52" "- 30"]
    representable_normal [of "2 ^ 52" "- 60"]
  by simp_all

lemma round_double_1_plus_tiny: "round_double (1 + 1 / 2 ^ 60) = Finite 1"
  by (simp add: round_double_binade_0 round_half_even_def Let_def)

subsection \<open>The calibration error\<close>

lemma GetCalibrationError_elements:
  "GetCalibrationError a b =
     double_sqrt
       (double_add
          (double_add (double_pow2 (double_sub (GetElement a 0 3) (GetElement b 0 3)))
             (double_pow2 (double_sub (GetElement a 1 3) (GetElement b 1 3))))
          (double_pow2 (double_sub (GetElement a 2 3) (GetElement b 2 3))))"
  by (simp add: GetCalibrationError_def Let_def GetPosition_def SetMatrix_def
      vtkTransform_New_def)

lemma translation_array_elements:
  "GetElement (MatrixFromArray (translation_array x y z)) 0 3 = x"
  "GetElement (MatrixFromArray (translation_array x y z)) 1 3 = y"
  "GetElement (MatrixFromArray (translation_array x y z)) (Suc 0) 3 = y"
  "GetElement (MatrixFromArray (translation_array x y z)) 2 3 = z"
  by (simp_all add: MatrixFromArray_nth translation_array_def)

lemma GetCalibrationError_rounds:
  "GetCalibrationError (MatrixFromArray (translation_array 1 (1 / 2 ^ 30) 0))
     (MatrixFromArray (translation_array 0 0 0)) = Finite 1"
  using representable_examples representable_0 round_double_1_plus_tiny
  by (simp add: GetCalibrationError_elements translation_array_elements double_sub_def
      representable_def)

text \<open>A difference of \<open>2\<^sup>1\<^sup>0\<^sup>2\<^sup>3\<close> has a square beyond the largest double: the result is infinite.\<close>

lemma GetCalibrationError_overflows:
  "GetCalibrationError (MatrixFromArray (translation_array (2 ^ 1023) 0 0))
     (MatrixFromArray (translation_array 0 0 0)) = PlusInf"
  using representable_normal [of "2 ^ 52" 1023] representable_0
  by (simp add: GetCalibrationError_elements translation_array_elements double_sub_def
      representable_def round_double_def Let_def max_double_def
      round_finite_binade [where e = 2046] round_half_even_def)

subsection \<open>A document compared with itself, whatever its rotation block\<close>










subsection \<open>The conversion of the thresholds, in range\<close>

lemma double_to_int_in_range:
  assumes "- 2147483649 < x" and "x < 2147483648"
  shows "double_to_int x = Some (truncate x)"
proof -
  have "- (2 ^ 31) \<le> truncate x \<and> truncate x < 2 ^ 31"
  proof (cases "0 \<le> x")
    case True
    then have "truncate x = \<lfloor>x\<rfloor>" by (simp add: truncate_def)
    moreover have "\<lfloor>x\<rfloor> < 2147483648" using assms(2) by (simp add: floor_less_iff)
    moreover have "0 \<le> \<lfloor>x\<rfloor>" using True by simp
    ultimately show ?thesis by simp
  next
    case False
    then have "truncate x = \<lceil>x\<rceil>" by (simp add: truncate_def)
    moreover have "- 2147483649 < \<lceil>x\<rceil>" using assms(1) by (simp add: less_ceiling_iff)
    moreover have "\<lceil>x\<rceil> \<le> 0" using False by (simp add: ceiling_le_iff)
    ultimately show ?thesis by simp
  qed
  then show ?thesis by (simp add: double_to_int_def)
qed

section \<open>The claims\<close>

subsection \<open>C1: a missing analysis section\<close>

text \<open>
  Claim C1 says that when both roots and both \<^verbatim>\<open>ErrorReports\<close> sections are present but
  the \<^verbatim>\<open>PointReconstructionErrorAnalysis\<close> section is missing in either document, one
  failure is recorded and the sibling \<^verbatim>\<open>PointLineDistanceErrorAnalysis\<close> branch is still
  attempted.  The code returns from the whole function instead (lines 296 and 303).

  C1, as amended: when the \<^verbatim>\<open>CalibrationResults\<close> block has run through, both
  \<^verbatim>\<open>ErrorReports\<close> sections are present and the \<^verbatim>\<open>PointReconstructionErrorAnalysis\<close>
  section is missing in either document, the comparison records exactly one missing-section
  failure for it (for the baseline when it is missing there) and returns at once: the
  result is the failures of the transform check followed by that one, whatever the
  \<^verbatim>\<open>PointLineDistanceErrorAnalysis\<close> sections hold.
\<close>

theorem missing_PRE_section_returns:
  assumes "CalibrationResultsBlock bl cur t r = Fallthrough fs"
    and "FindNestedElementWithName bl ''ErrorReports'' = Some erb"
    and "FindNestedElementWithName cur ''ErrorReports'' = Some erc"
    and "FindNestedElementWithName erb ''PointReconstructionErrorAnalysis'' = None
         \<or> FindNestedElementWithName erc ''PointReconstructionErrorAnalysis'' = None"
  shows "CompareFailures (Some bl) (Some cur) t r =
           fs @ [SectionMissing
                   (if FindNestedElementWithName erb ''PointReconstructionErrorAnalysis'' = None
                    then Baseline else Current)
                   ''PointReconstructionErrorAnalysis'']
         \<and> CompareCalibrationResultsWithBaseline (Some bl) (Some cur) t r =
             int (length fs) + 1"
  using assms
  by (auto simp: CompareCalibrationResultsWithBaseline_def CompareFailures_def
      ErrorReportsBlock_def PointReconstructionErrorAnalysisBlock_def split: option.splits)

theorem missing_PRE_section_returns_witness:
  "CalibrationResultsBlock example_document document_without_PRE_section 0 0 = Fallthrough []
   \<and> FindNestedElementWithName example_document ''ErrorReports'' = Some example_error_reports
   \<and> FindNestedElementWithName document_without_PRE_section ''ErrorReports'' =
        Some error_reports_without_PRE_section
   \<and> FindNestedElementWithName error_reports_without_PRE_section
        ''PointReconstructionErrorAnalysis'' = None
   \<and> CompareFailures (Some example_document) (Some document_without_PRE_section) 0 0 =
        [SectionMissing Current ''PointReconstructionErrorAnalysis'']
   \<and> CompareCalibrationResultsWithBaseline (Some example_document)
        (Some document_without_PRE_section) 0 0 = 1"
  using missing_PRE_section_returns
      [OF CalibrationResultsBlock_example example_sections(1) example_sections(2)
        disjI2 [OF example_sections(3)]]
    CalibrationResultsBlock_example
  by (simp add: example_sections)

text \<open>
  The claim as stated fails: the baseline is the example document, the current document has
  no \<^verbatim>\<open>PointReconstructionErrorAnalysis\<close> section and a \<open>PLDE\<close> that the sibling branch
  would report.  The comparison returns one failure; the \<open>PLDE\<close> mismatch is not among
  its failures.
\<close>

theorem missing_PRE_section_counterexample:
  "FindNestedElementWithName example_document ''ErrorReports'' = Some example_error_reports
   \<and> FindNestedElementWithName document_without_PRE_section ''ErrorReports'' =
        Some error_reports_without_PRE_section
   \<and> FindNestedElementWithName error_reports_without_PRE_section
        ''PointReconstructionErrorAnalysis'' = None
   \<and> outcome_failures (PointLineDistanceErrorAnalysisBlock example_error_reports
        error_reports_without_PRE_section) = [ElementMismatch ''PLDE'' 0 2 1]
   \<and> CompareFailures (Some example_document) (Some document_without_PRE_section) 0 0 =
        [SectionMissing Current ''PointReconstructionErrorAnalysis'']
   \<and> CompareFailures (Some example_document) (Some document_without_PRE_section) 0 0 \<noteq>
        [SectionMissing Current ''PointReconstructionErrorAnalysis'']
        @ outcome_failures (PointLineDistanceErrorAnalysisBlock example_error_reports
            error_reports_without_PRE_section)
   \<and> CompareCalibrationResultsWithBaseline (Some example_document)
        (Some document_without_PRE_section) 0 0 = 1"
  by (simp add: CompareCalibrationResultsWithBaseline_def example_sections
      PointLineDistanceErrorAnalysisBlock_example CompareFailures_example_without_PRE_section)

subsection \<open>C2: a document compared with itself\<close>




subsection \<open>C3: the relative-ratio rule\<close>

text \<open>
  Claim C3 says that for a baseline value \<open>b\<close> and a nonzero current value \<open>c\<close> a failure
  is recorded if and only if \<open>b / c > 1 + 0.05\<close> or \<open>b / c < 1 - 0.05\<close>.  In exact
  arithmetic this fails at the two bounds, because the code computes the quotient, the
  sum and the difference in binary64.

  C3, as amended: for a nonzero current value a failure is recorded if and only if the
  binary64 quotient of \<open>b\<close> and \<open>c\<close> is greater than the binary64 sum of 1 and the double
  nearest to 0.05, or less than their binary64 difference; the threshold is that fixed
  constant.  In exact terms: if and only if \<open>b / c < 17113678584007883 / 2\<^sup>5\<^sup>4\<close> or
  \<open>b / c \<ge> 9457559217478043 / 2\<^sup>5\<^sup>3\<close>.  This holds for the rule itself, for each component
  of a vector metric in the loop, and for the scalar confidence level.
\<close>

theorem relative_ratio_rule_binary64:
  "(c \<noteq> 0 \<longrightarrow>
      (RatioOutOfTolerance b c \<longleftrightarrow>
         double_gt (round_double (b / c)) (round_finite (1 + round_finite (5 / 100)))
         \<or> double_lt (round_double (b / c)) (round_finite (1 - round_finite (5 / 100)))))
   \<and> (c \<noteq> 0 \<longrightarrow>
        (RatioOutOfTolerance b c \<longleftrightarrow>
           b / c < 17113678584007883 / 2 ^ 54 \<or> 9457559217478043 / 2 ^ 53 \<le> b / c))
   \<and> (k < n \<and> cs ! k \<noteq> 0 \<longrightarrow>
        (ElementMismatch name k (cs ! k) (bs ! k) \<in> set (CompareElements name 0 n bs cs) \<longleftrightarrow>
           bs ! k / cs ! k < 17113678584007883 / 2 ^ 54
           \<or> 9457559217478043 / 2 ^ 53 \<le> bs ! k / cs ! k))
   \<and> (GetScalarAttribute eb ''ValidationDataConfidenceLevel'' = Some b'
        \<and> GetScalarAttribute ec ''ValidationDataConfidenceLevel'' = Some c' \<and> c' \<noteq> 0 \<longrightarrow>
        CompareConfidenceLevel label eb ec =
          (if b' / c' < 17113678584007883 / 2 ^ 54 \<or> 9457559217478043 / 2 ^ 53 \<le> b' / c'
           then [ConfidenceLevelMismatch label c' b'] else []))"
proof -
  have "c \<noteq> 0 \<longrightarrow>
      (RatioOutOfTolerance b c \<longleftrightarrow>
         double_gt (round_double (b / c)) (round_finite (1 + round_finite (5 / 100)))
         \<or> double_lt (round_double (b / c)) (round_finite (1 - round_finite (5 / 100))))"
    by (simp add: RatioOutOfTolerance_def double_div_def ERROR_THRESHOLD_def Let_def)
  then show ?thesis
    by (simp add: RatioOutOfTolerance_real CompareElements_member CompareConfidenceLevel_def)
qed

theorem relative_ratio_rule_binary64_witness:
  "(2::real) \<noteq> 0 \<and> RatioOutOfTolerance 1 2
   \<and> (0::nat) < 3 \<and> [2, 1, 1] ! 0 \<noteq> (0::real)
   \<and> ElementMismatch ''PLDE'' 0 2 1 \<in> set (CompareElements ''PLDE'' 0 3 [1, 1, 1] [2, 1, 1])
   \<and> GetScalarAttribute (Element ''A'' [(''ValidationDataConfidenceLevel'', Scalar 1)] [])
        ''ValidationDataConfidenceLevel'' = Some 1
   \<and> GetScalarAttribute (Element ''A'' [(''ValidationDataConfidenceLevel'', Scalar 2)] [])
        ''ValidationDataConfidenceLevel'' = Some 2
   \<and> CompareConfidenceLevel ''PRE''
        (Element ''A'' [(''ValidationDataConfidenceLevel'', Scalar 1)] [])
        (Element ''A'' [(''ValidationDataConfidenceLevel'', Scalar 2)] [])
      = [ConfidenceLevelMismatch ''PRE'' 2 1]
   \<and> round_finite (1045 / 1000) = 588282701325271 / 2 ^ 49
   \<and> round_finite (11 / 10) = 2476979795053773 / 2 ^ 51
   \<and> (2476979795053773 / 2 ^ 51 :: real) \<noteq> 0
   \<and> RatioOutOfTolerance (588282701325271 / 2 ^ 49) (2476979795053773 / 2 ^ 51)"
  using relative_ratio_rule_binary64 [of 2 1 0 3 "[2, 1, 1]" "''PLDE''" "[1, 1, 1]"
      "Element ''A'' [(''ValidationDataConfidenceLevel'', Scalar 1)] []" 1
      "Element ''A'' [(''ValidationDataConfidenceLevel'', Scalar 2)] []" 2 "''PRE''",
      THEN conjunct2]
    relative_ratio_rule_binary64 [of "2476979795053773 / 2 ^ 51" "588282701325271 / 2 ^ 49",
      THEN conjunct2, THEN conjunct1]
  by (simp add: GetScalarAttribute_def round_finite_binade [where e = 0]
      round_half_even_def Let_def)

text \<open>
  (The last lines of the witness are the decimal numbers 1.045 and 1.1 as a document gives
  them after parsing: their quotient is out of tolerance, although 1.045 / 1.1 is 0.95.)

  The claim as stated fails at both bounds.  The double nearest to 0.95 is below
  \<open>1 - 0.05\<close>, and over 1 it records no failure; the double nearest to 1.05 is above
  \<open>1 + 0.05\<close>, and over 1 it records no failure.
\<close>

theorem relative_ratio_rule_counterexample:
  "(4278419646001971 / 4503599627370496 :: real) / 1 < 1 - 5 / 100
   \<and> \<not> RatioOutOfTolerance (4278419646001971 / 4503599627370496) 1
   \<and> (4728779608739021 / 4503599627370496 :: real) / 1 > 1 + 5 / 100
   \<and> \<not> RatioOutOfTolerance (4728779608739021 / 4503599627370496) 1"
  by (simp add: RatioOutOfTolerance_real)

subsection \<open>C4: the absolute-threshold rule\<close>

text \<open>
  Claim C4: a translation error records a failure only when it is strictly greater than
  the translation threshold: an error below the threshold or exactly equal to it records no
  failure, an error strictly above it records one.  The same strict inequality decides the
  rotation error against the rotation threshold (and a rotation error that is NaN records
  no failure).
\<close>

theorem absolute_threshold_is_strict:
  "(GetPositionDifference (MatrixFromArray bl) (MatrixFromArray c) = real_of_int t \<longrightarrow>
      filter is_translation_failure (CompareTransforms bl c t r) = [])
   \<and> (GetPositionDifference (MatrixFromArray bl) (MatrixFromArray c) < real_of_int t \<longrightarrow>
        filter is_translation_failure (CompareTransforms bl c t r) = [])
   \<and> (GetPositionDifference (MatrixFromArray bl) (MatrixFromArray c) > real_of_int t \<longrightarrow>
        filter is_translation_failure (CompareTransforms bl c t r) =
          [TranslationErrorExceeded
             (GetPositionDifference (MatrixFromArray bl) (MatrixFromArray c)) t])
   \<and> (GetOrientationDifference (MatrixFromArray bl) (MatrixFromArray c) =
         Finite (real_of_int r) \<longrightarrow>
        filter is_rotation_failure (CompareTransforms bl c t r) = [])
   \<and> (GetOrientationDifference (MatrixFromArray bl) (MatrixFromArray c) = Finite e
        \<and> e < real_of_int r \<longrightarrow>
        filter is_rotation_failure (CompareTransforms bl c t r) = [])
   \<and> (double_gt (GetOrientationDifference (MatrixFromArray bl) (MatrixFromArray c))
         (real_of_int r) \<longrightarrow>
        filter is_rotation_failure (CompareTransforms bl c t r) =
          [RotationErrorExceeded
             (GetOrientationDifference (MatrixFromArray bl) (MatrixFromArray c)) r])
   \<and> (\<not> double_gt (GetOrientationDifference (MatrixFromArray bl) (MatrixFromArray c))
         (real_of_int r) \<longrightarrow>
        filter is_rotation_failure (CompareTransforms bl c t r) = [])
   \<and> length (CompareTransforms bl c t r) =
       (if GetPositionDifference (MatrixFromArray bl) (MatrixFromArray c) > real_of_int t
        then 1 else 0)
       + (if double_gt (GetOrientationDifference (MatrixFromArray bl) (MatrixFromArray c))
               (real_of_int r)
          then 1 else 0)"
  by (simp add: CompareTransforms_def Let_def)

theorem absolute_threshold_is_strict_witness:
  "GetPositionDifference (MatrixFromArray identity_array)
     (MatrixFromArray (quarter_turn_array 3 4 0)) = real_of_int 5
   \<and> GetOrientationDifference (MatrixFromArray identity_array)
       (MatrixFromArray (quarter_turn_array 3 4 0)) = Finite (real_of_int 90)
   \<and> CompareTransforms identity_array (quarter_turn_array 3 4 0) 5 90 = []
   \<and> GetPositionDifference (MatrixFromArray identity_array)
       (MatrixFromArray (quarter_turn_array 3 4 0)) < real_of_int 6
   \<and> GetOrientationDifference (MatrixFromArray identity_array)
       (MatrixFromArray (quarter_turn_array 3 4 0)) = Finite 90 \<and> (90::real) < real_of_int 91
   \<and> \<not> double_gt (GetOrientationDifference (MatrixFromArray identity_array)
       (MatrixFromArray (quarter_turn_array 3 4 0))) (real_of_int 91)
   \<and> CompareTransforms identity_array (quarter_turn_array 3 4 0) 6 91 = []
   \<and> GetPositionDifference (MatrixFromArray identity_array)
       (MatrixFromArray (quarter_turn_array 3 4 0)) > real_of_int 4
   \<and> double_gt (GetOrientationDifference (MatrixFromArray identity_array)
       (MatrixFromArray (quarter_turn_array 3 4 0))) (real_of_int 89)
   \<and> filter is_translation_failure
        (CompareTransforms identity_array (quarter_turn_array 3 4 0) 4 89) =
        [TranslationErrorExceeded 5 4]
   \<and> filter is_rotation_failure
        (CompareTransforms identity_array (quarter_turn_array 3 4 0) 4 89) =
        [RotationErrorExceeded (Finite 90) 89]
   \<and> length (CompareTransforms identity_array (quarter_turn_array 3 4 0) 4 89) = 2"
proof -
  have none: "CompareTransforms identity_array (quarter_turn_array 3 4 0) 5 90 = []"
    "CompareTransforms identity_array (quarter_turn_array 3 4 0) 6 91 = []"
    by (simp_all add: CompareTransforms_def GetPositionDifference_example
        GetOrientationDifference_example)
  show ?thesis
    using absolute_threshold_is_strict [of identity_array "quarter_turn_array 3 4 0" 5 90 90]
      absolute_threshold_is_strict [of identity_array "quarter_turn_array 3 4 0" 6 91 90]
      absolute_threshold_is_strict [of identity_array "quarter_turn_array 3 4 0" 4 89 90]
      none
    by (simp add: GetPositionDifference_example GetOrientationDifference_example)
qed

subsection \<open>C5: one corrupted component of PRE\<close>

text \<open>
  Claim C5: when the current document is the (valid) baseline document except that one of
  the nine \<open>PRE\<close> components is out of the ratio tolerance, the comparison records exactly
  one failure, for that component.  Every component is checked on its own: the number of
  failures of the loop is the number of components out of tolerance.
\<close>

theorem one_corrupted_PRE_component_is_one_failure:
  assumes "valid_document d" and "0 \<le> t" and "0 \<le> r"
    and "document_PRE d = Some v" and "i < 9" and "RatioOutOfTolerance (v ! i) x"
  shows "CompareFailures (Some d) (Some (set_PRE (v[i := x]) d)) t r =
           [ElementMismatch ''PRE'' i x (v ! i)]
         \<and> CompareCalibrationResultsWithBaseline (Some d) (Some (set_PRE (v[i := x]) d)) t r
             = 1
         \<and> length (CompareElements name 0 n bs cs) =
             length (filter (\<lambda>k. RatioOutOfTolerance (bs ! k) (cs ! k)) [0..<n])"
  using assms
  by (simp add: CompareCalibrationResultsWithBaseline_def CompareFailures_set_PRE
      CompareElements_length)

theorem one_corrupted_PRE_component_is_one_failure_witness:
  "valid_document example_document \<and> (0::int) \<le> 0
   \<and> document_PRE example_document = Some [1, 1, 1, 1, 1, 1, 1, 1, 1]
   \<and> (3::nat) < 9 \<and> RatioOutOfTolerance ([1, 1, 1, 1, 1, 1, 1, 1, 1] ! 3) 2
   \<and> CompareFailures (Some example_document)
        (Some (set_PRE [1, 1, 1, 2, 1, 1, 1, 1, 1] example_document)) 0 0 =
        [ElementMismatch ''PRE'' 3 2 1]
   \<and> CompareCalibrationResultsWithBaseline (Some example_document)
        (Some (set_PRE [1, 1, 1, 2, 1, 1, 1, 1, 1] example_document)) 0 0 = 1"
proof -
  have ratio: "RatioOutOfTolerance ([1, 1, 1, 1, 1, 1, 1, 1, 1] ! 3) 2"
    by (simp add: RatioOutOfTolerance_real)
  show ?thesis
    using one_corrupted_PRE_component_is_one_failure
      [where d = example_document and t = 0 and r = 0 and i = 3 and x = 2
        and v = "[1, 1, 1, 1, 1, 1, 1, 1, 1]"]
      valid_example_document document_PRE_example ratio
    by simp
qed

subsection \<open>C6: the PRE attribute removed from the current document\<close>

text \<open>
  Claim C6: when the current document is the (valid) baseline document with the \<open>PRE\<close>
  attribute removed, the comparison records exactly one failure, the missing attribute of
  the current document.  Only the comparison of the \<open>PRE\<close> components is skipped: for any
  two documents where the baseline has \<open>PRE\<close> and the current one has not, the failures of
  the \<^verbatim>\<open>ErrorReports\<close> block are that one, then those of the \<open>PRE\<close> confidence level,
  then those of the whole \<^verbatim>\<open>PointLineDistanceErrorAnalysis\<close> block.
\<close>

theorem removed_PRE_attribute_is_one_failure:
  "(valid_document d \<and> 0 \<le> t \<and> 0 \<le> r \<longrightarrow>
      CompareFailures (Some d) (Some (remove_PRE d)) t r = [AttributeMissing Current ''PRE'']
      \<and> CompareCalibrationResultsWithBaseline (Some d) (Some (remove_PRE d)) t r = 1)
   \<and> (FindNestedElementWithName bl ''ErrorReports'' = Some erb
        \<and> FindNestedElementWithName cur ''ErrorReports'' = Some erc
        \<and> FindNestedElementWithName erb ''PointReconstructionErrorAnalysis'' = Some pb
        \<and> FindNestedElementWithName erc ''PointReconstructionErrorAnalysis'' = Some pc
        \<and> GetVectorAttribute pb ''PRE'' 9 \<noteq> None
        \<and> GetVectorAttribute pc ''PRE'' 9 = None \<longrightarrow>
        outcome_failures (ErrorReportsBlock bl cur) =
          [AttributeMissing Current ''PRE''] @ CompareConfidenceLevel ''PRE'' pb pc
          @ outcome_failures (PointLineDistanceErrorAnalysisBlock erb erc))"
  by (simp add: CompareCalibrationResultsWithBaseline_def CompareFailures_remove_PRE
      ErrorReportsBlock_current_without_PRE)

theorem removed_PRE_attribute_is_one_failure_witness:
  "valid_document example_document \<and> (0::int) \<le> 0
   \<and> CompareCalibrationResultsWithBaseline (Some example_document)
        (Some (remove_PRE example_document)) 0 0 = 1
   \<and> FindNestedElementWithName example_document ''ErrorReports'' = Some example_error_reports
   \<and> FindNestedElementWithName document_without_PRE_attribute ''ErrorReports'' =
        Some error_reports_without_PRE_attribute
   \<and> FindNestedElementWithName example_error_reports ''PointReconstructionErrorAnalysis'' =
        Some (example_analysis ''PointReconstructionErrorAnalysis'' ''PRE''
          [1, 1, 1, 1, 1, 1, 1, 1, 1])
   \<and> FindNestedElementWithName error_reports_without_PRE_attribute
        ''PointReconstructionErrorAnalysis'' = Some analysis_without_PRE_attribute
   \<and> GetVectorAttribute (example_analysis ''PointReconstructionErrorAnalysis'' ''PRE''
        [1, 1, 1, 1, 1, 1, 1, 1, 1]) ''PRE'' 9 \<noteq> None
   \<and> GetVectorAttribute analysis_without_PRE_attribute ''PRE'' 9 = None
   \<and> outcome_failures (ErrorReportsBlock example_document document_without_PRE_attribute) =
        [AttributeMissing Current ''PRE'', ConfidenceLevelMismatch ''PRE'' (1 / 2) (95 / 100),
         ElementMismatch ''PLDE'' 0 2 1]"
  using removed_PRE_attribute_is_one_failure
      [of example_document 0 0 example_document example_error_reports
        document_without_PRE_attribute error_reports_without_PRE_attribute
        "example_analysis ''PointReconstructionErrorAnalysis'' ''PRE''
          [1, 1, 1, 1, 1, 1, 1, 1, 1]"
        analysis_without_PRE_attribute]
    valid_example_document
  by (simp add: example_sections without_PRE_attribute_sections
      CompareConfidenceLevel_example PointLineDistanceErrorAnalysisBlock_without_PRE_attribute)

subsection \<open>C7: the calibration error and the Euclidean distance of the translations\<close>

text \<open>
  Claim C7 says that the translation error of two 4x4 matrices equals the Euclidean
  distance \<open>sqrt ((bx - cx)\<^sup>2 + (by - cy)\<^sup>2 + (bz - cz)\<^sup>2)\<close> of their translation
  components.  Line 448 computes that formula in binary64, and the result is not the exact
  distance in general.

  C7, as amended: the translation error is a pure function of the translation components
  (rows 0..2 of column 3) of the two matrices: the binary64 evaluation of the formula, in
  which the three differences, their squares, the two sums and the square root are each
  rounded to the nearest double.  It equals the Euclidean distance whenever all of these
  exact intermediate values are representable.
\<close>

theorem GetCalibrationError_binary64:
  "GetCalibrationError a b =
     double_sqrt
       (double_add
          (double_add (double_pow2 (double_sub (GetElement a 0 3) (GetElement b 0 3)))
             (double_pow2 (double_sub (GetElement a 1 3) (GetElement b 1 3))))
          (double_pow2 (double_sub (GetElement a 2 3) (GetElement b 2 3))))
   \<and> (dx = GetElement a 0 3 - GetElement b 0 3
        \<and> dy = GetElement a 1 3 - GetElement b 1 3
        \<and> dz = GetElement a 2 3 - GetElement b 2 3
        \<and> representable dx \<and> representable dy \<and> representable dz
        \<and> representable (dx * dx) \<and> representable (dy * dy) \<and> representable (dz * dz)
        \<and> representable (dx * dx + dy * dy)
        \<and> representable (dx * dx + dy * dy + dz * dz)
        \<and> representable (sqrt (dx * dx + dy * dy + dz * dz)) \<longrightarrow>
        GetCalibrationError a b = Finite (sqrt (dx\<^sup>2 + dy\<^sup>2 + dz\<^sup>2)))"
proof -
  have nonneg: "\<not> dx * dx + dy * dy + dz * dz < 0" for dx dy dz :: real
    by (simp add: not_less add_nonneg_nonneg)
  show ?thesis
    by (auto simp: GetCalibrationError_elements double_sub_def representable_def nonneg
        power2_eq_square)
qed

theorem GetCalibrationError_binary64_witness:
  "(3::real) = GetElement (MatrixFromArray (translation_array 3 4 0)) 0 3
             - GetElement (MatrixFromArray (translation_array 0 0 0)) 0 3
   \<and> (4::real) = GetElement (MatrixFromArray (translation_array 3 4 0)) 1 3
             - GetElement (MatrixFromArray (translation_array 0 0 0)) 1 3
   \<and> (0::real) = GetElement (MatrixFromArray (translation_array 3 4 0)) 2 3
             - GetElement (MatrixFromArray (translation_array 0 0 0)) 2 3
   \<and> representable 3 \<and> representable 4 \<and> representable 0
   \<and> representable (3 * 3) \<and> representable (4 * 4) \<and> representable (0 * 0)
   \<and> representable (3 * 3 + 4 * 4) \<and> representable (3 * 3 + 4 * 4 + 0 * 0)
   \<and> representable (sqrt (3 * 3 + 4 * 4 + 0 * 0))
   \<and> GetCalibrationError (MatrixFromArray (translation_array 3 4 0))
        (MatrixFromArray (translation_array 0 0 0)) = Finite 5"
  using GetCalibrationError_binary64
      [of "MatrixFromArray (translation_array 3 4 0)"
        "MatrixFromArray (translation_array 0 0 0)" 3 4 0, THEN conjunct2]
    representable_examples representable_0
  by (simp add: translation_array_elements)

text \<open>
  The claim as stated fails: for the positions \<open>(1, 2\<^sup>-\<^sup>3\<^sup>0, 0)\<close> and \<open>(0, 0, 0)\<close> the code
  returns exactly 1, and the Euclidean distance is \<open>sqrt (1 + 2\<^sup>-\<^sup>6\<^sup>0)\<close>, which is more.
\<close>

theorem GetCalibrationError_counterexample:
  "GetCalibrationError (MatrixFromArray (translation_array 1 (1 / 2 ^ 30) 0))
     (MatrixFromArray (translation_array 0 0 0)) = Finite 1
   \<and> 1 < sqrt
        ((GetElement (MatrixFromArray (translation_array 1 (1 / 2 ^ 30) 0)) 0 3
           - GetElement (MatrixFromArray (translation_array 0 0 0)) 0 3)\<^sup>2
         + (GetElement (MatrixFromArray (translation_array 1 (1 / 2 ^ 30) 0)) 1 3
             - GetElement (MatrixFromArray (translation_array 0 0 0)) 1 3)\<^sup>2
         + (GetElement (MatrixFromArray (translation_array 1 (1 / 2 ^ 30) 0)) 2 3
             - GetElement (MatrixFromArray (translation_array 0 0 0)) 2 3)\<^sup>2)"
  using GetCalibrationError_rounds by (simp add: translation_array_elements)

subsection \<open>C8: the thresholds are integers\<close>

text \<open>
  Claim C8: the comparison takes its two thresholds as integers, so the \<^verbatim>\<open>double\<close>
  thresholds of \<^verbatim>\<open>main\<close> are truncated toward zero before any comparison (1.9 becomes
  1).  For every pair of thresholds within the range of \<^verbatim>\<open>int\<close> the call returns the
  result of the comparison with the truncated thresholds, which is also its result for
  those whole numbers; the truncated value has the sign of the input and is less than one
  away from it, never beyond it.
\<close>

theorem thresholds_are_truncated_to_integers:
  assumes "- 2147483649 < x" and "x < 2147483648"
    and "- 2147483649 < y" and "y < 2147483648"
  shows "double_to_int x = Some (truncate x) \<and> double_to_int y = Some (truncate y)
         \<and> main_compare bl cur x y =
             Some (CompareCalibrationResultsWithBaseline bl cur (truncate x) (truncate y))
         \<and> main_compare bl cur x y =
             main_compare bl cur (real_of_int (truncate x)) (real_of_int (truncate y))
         \<and> \<bar>real_of_int (truncate x)\<bar> \<le> \<bar>x\<bar> \<and> \<bar>x\<bar> < \<bar>real_of_int (truncate x)\<bar> + 1
         \<and> 0 \<le> real_of_int (truncate x) * x
         \<and> \<bar>real_of_int (truncate y)\<bar> \<le> \<bar>y\<bar> \<and> \<bar>y\<bar> < \<bar>real_of_int (truncate y)\<bar> + 1
         \<and> 0 \<le> real_of_int (truncate y) * y"
proof -
  have x: "double_to_int x = Some (truncate x)"
    using assms(1,2) by (rule double_to_int_in_range)
  have y: "double_to_int y = Some (truncate y)"
    using assms(3,4) by (rule double_to_int_in_range)
  have "main_compare bl cur x y =
      Some (CompareCalibrationResultsWithBaseline bl cur (truncate x) (truncate y))"
    by (simp add: main_compare_def x y)
  moreover have "main_compare bl cur (real_of_int (truncate x)) (real_of_int (truncate y)) =
      Some (CompareCalibrationResultsWithBaseline bl cur (truncate x) (truncate y))"
    by (simp add: main_compare_def double_to_int_of_int [OF x] double_to_int_of_int [OF y])
  ultimately show ?thesis
    by (simp add: x y truncate_bounds)
qed

theorem thresholds_are_truncated_to_integers_witness:
  "- 2147483649 < (19 / 10 :: real) \<and> (19 / 10 :: real) < 2147483648
   \<and> - 2147483649 < (- 27 / 10 :: real) \<and> (- 27 / 10 :: real) < 2147483648
   \<and> - 2147483649 < (1 / 2 :: real) \<and> (1 / 2 :: real) < 2147483648
   \<and> double_to_int (19 / 10) = Some 1 \<and> double_to_int (- 27 / 10) = Some (- 2)
   \<and> double_to_int (1 / 2) = Some 0
   \<and> main_compare (Some example_document) (Some (translated_document (3 / 2)))
        (19 / 10) (19 / 10) = Some 1
   \<and> CompareFailures (Some example_document) (Some (translated_document (3 / 2))) 1 1 =
        [TranslationErrorExceeded (3 / 2) 1]
   \<and> main_compare (Some example_document) (Some (translated_document (3 / 2)))
        (19 / 10) (19 / 10) =
      main_compare (Some example_document) (Some (translated_document (3 / 2))) 1 1"
proof -
  have t: "truncate (19 / 10) = 1" "truncate (- (27 / 10)) = - 2" "truncate (1 / 2) = 0"
    by (simp_all add: truncate_def)
  show ?thesis
    using thresholds_are_truncated_to_integers
        [of "19 / 10" "19 / 10" "Some example_document"
          "Some (translated_document (3 / 2))"]
      thresholds_are_truncated_to_integers [of "- 27 / 10" "1 / 2"]
      CompareFailures_translated
    by (auto simp: t CompareCalibrationResultsWithBaseline_def)
qed

subsection \<open>C9: an attribute missing from the baseline\<close>

text \<open>
  Claim C9: for each attribute checked in pairs (\<^verbatim>\<open>TransformImageToProbe\<close>, \<open>PRE\<close>,
  \<open>PLDE\<close> and the two confidence levels), when the baseline lacks the attribute exactly
  one failure is recorded, whatever the current element is: the current attribute is not
  read, and an attribute missing from both documents is one failure, not two.  For a valid
  document with \<open>PRE\<close> removed as the baseline, the comparison returns 1 both against the
  document and against the document with \<open>PRE\<close> removed.
\<close>

theorem baseline_attribute_missing_is_one_failure:
  "(GetVectorAttribute tb ''TransformImageToProbe'' 16 = None \<longrightarrow>
      CompareTransformImageToProbe tb tc t r =
        [AttributeMissing Baseline ''TransformImageToProbe''])
   \<and> (GetVectorAttribute pb ''PRE'' 9 = None \<longrightarrow>
        CompareVectorAttribute ''PRE'' 9 pb pc = [AttributeMissing Baseline ''PRE''])
   \<and> (GetVectorAttribute lb ''PLDE'' 3 = None \<longrightarrow>
        CompareVectorAttribute ''PLDE'' 3 lb lc = [AttributeMissing Baseline ''PLDE''])
   \<and> (GetScalarAttribute pb' ''ValidationDataConfidenceLevel'' = None \<longrightarrow>
        CompareConfidenceLevel ''PRE'' pb' pc' =
          [AttributeMissing Baseline ''PRE ValidationDataConfidenceLevel''])
   \<and> (GetScalarAttribute lb' ''ValidationDataConfidenceLevel'' = None \<longrightarrow>
        CompareConfidenceLevel ''PLDE'' lb' lc' =
          [AttributeMissing Baseline ''PLDE ValidationDataConfidenceLevel''])
   \<and> (valid_document d \<and> 0 \<le> t' \<and> 0 \<le> r' \<longrightarrow>
        CompareCalibrationResultsWithBaseline (Some (remove_PRE d)) (Some d) t' r' = 1
        \<and> CompareCalibrationResultsWithBaseline (Some (remove_PRE d)) (Some (remove_PRE d))
             t' r' = 1)"
  by (simp add: CompareTransformImageToProbe_def CompareVectorAttribute_def
      CompareConfidenceLevel_def CompareCalibrationResultsWithBaseline_def
      CompareFailures_baseline_without_PRE)

theorem baseline_attribute_missing_is_one_failure_witness:
  "GetVectorAttribute (Element ''CalibrationTransform'' [] []) ''TransformImageToProbe'' 16
     = None
   \<and> CompareTransformImageToProbe (Element ''CalibrationTransform'' [] [])
        (Element ''CalibrationTransform'' [] []) 0 0 =
        [AttributeMissing Baseline ''TransformImageToProbe'']
   \<and> GetVectorAttribute (Element ''A'' [] []) ''PRE'' 9 = None
   \<and> CompareVectorAttribute ''PRE'' 9 (Element ''A'' [] []) (Element ''A'' [] []) =
        [AttributeMissing Baseline ''PRE'']
   \<and> GetVectorAttribute (Element ''A'' [] []) ''PLDE'' 3 = None
   \<and> CompareVectorAttribute ''PLDE'' 3 (Element ''A'' [] []) (Element ''A'' [] []) =
        [AttributeMissing Baseline ''PLDE'']
   \<and> GetScalarAttribute (Element ''A'' [] []) ''ValidationDataConfidenceLevel'' = None
   \<and> CompareConfidenceLevel ''PRE'' (Element ''A'' [] []) (Element ''A'' [] []) =
        [AttributeMissing Baseline ''PRE ValidationDataConfidenceLevel'']
   \<and> CompareConfidenceLevel ''PLDE'' (Element ''A'' [] []) (Element ''A'' [] []) =
        [AttributeMissing Baseline ''PLDE ValidationDataConfidenceLevel'']
   \<and> valid_document example_document \<and> (0::int) \<le> 0
   \<and> CompareCalibrationResultsWithBaseline (Some (remove_PRE example_document))
        (Some example_document) 0 0 = 1
   \<and> CompareCalibrationResultsWithBaseline (Some (remove_PRE example_document))
        (Some (remove_PRE example_document)) 0 0 = 1"
  using baseline_attribute_missing_is_one_failure
      [of "Element ''CalibrationTransform'' [] []" "Element ''CalibrationTransform'' [] []" 0 0
        "Element ''A'' [] []" "Element ''A'' [] []" "Element ''A'' [] []" "Element ''A'' [] []"
        "Element ''A'' [] []" "Element ''A'' [] []" "Element ''A'' [] []" "Element ''A'' [] []"
        example_document 0 0]
    valid_example_document
  by (simp add: GetVectorAttribute_def GetScalarAttribute_def)

subsection \<open>C10: division by zero in the ratio rule\<close>

text \<open>
  Claim C10: the ratio \<open>baseline / current\<close> is computed without a guard, and a current
  value of zero is reachable (the last conjunct is a run of the whole comparison that
  divides by zero).  A nonzero baseline over a zero current value gives an infinite ratio,
  which is a failure; zero over zero gives NaN, which is none.
\<close>

theorem division_by_zero_in_ratio_rule:
  "double_div b 0 = (if b = 0 then NaN else if 0 < b then PlusInf else MinusInf)
   \<and> (RatioOutOfTolerance b 0 \<longleftrightarrow> b \<noteq> 0)
   \<and> (k < n \<and> cs ! k = 0 \<longrightarrow>
        (ElementMismatch name k (cs ! k) (bs ! k) \<in> set (CompareElements name 0 n bs cs) \<longleftrightarrow>
           bs ! k \<noteq> 0))
   \<and> (GetScalarAttribute eb ''ValidationDataConfidenceLevel'' = Some b'
        \<and> GetScalarAttribute ec ''ValidationDataConfidenceLevel'' = Some 0 \<longrightarrow>
        CompareConfidenceLevel label eb ec =
          (if b' \<noteq> 0 then [ConfidenceLevelMismatch label 0 b'] else []))
   \<and> CompareFailures (Some example_document)
        (Some (set_PRE [1, 1, 1, 0, 1, 1, 1, 1, 1] example_document)) 0 0 =
        [ElementMismatch ''PRE'' 3 0 1]"
proof -
  have "CompareFailures (Some example_document)
        (Some (set_PRE ([1, 1, 1, 1, 1, 1, 1, 1, 1][3 := 0]) example_document)) 0 0 =
        [ElementMismatch ''PRE'' 3 0 ([1, 1, 1, 1, 1, 1, 1, 1, 1] ! 3)]"
    by (rule CompareFailures_set_PRE [OF valid_example_document order_refl order_refl
          document_PRE_example])
      (simp_all add: RatioOutOfTolerance_zero)
  then show ?thesis
    by (simp add: double_div_def RatioOutOfTolerance_zero CompareElements_member
        CompareConfidenceLevel_def)
qed

theorem division_by_zero_in_ratio_rule_witness:
  "double_div 1 0 = PlusInf \<and> double_div (- 1) 0 = MinusInf \<and> double_div 0 0 = NaN
   \<and> RatioOutOfTolerance 1 0 \<and> \<not> RatioOutOfTolerance 0 0
   \<and> (1::nat) < 3 \<and> [1, 0, 1] ! 1 = (0::real)
   \<and> ElementMismatch ''PLDE'' 1 0 1 \<in> set (CompareElements ''PLDE'' 0 3 [1, 1, 1] [1, 0, 1])
   \<and> ElementMismatch ''PLDE'' 1 0 0 \<notin> set (CompareElements ''PLDE'' 0 3 [1, 0, 1] [1, 0, 1])
   \<and> GetScalarAttribute (Element ''A'' [(''ValidationDataConfidenceLevel'', Scalar 1)] [])
        ''ValidationDataConfidenceLevel'' = Some 1
   \<and> GetScalarAttribute (Element ''A'' [(''ValidationDataConfidenceLevel'', Scalar 0)] [])
        ''ValidationDataConfidenceLevel'' = Some 0
   \<and> CompareConfidenceLevel ''PRE''
        (Element ''A'' [(''ValidationDataConfidenceLevel'', Scalar 1)] [])
        (Element ''A'' [(''ValidationDataConfidenceLevel'', Scalar 0)] [])
      = [ConfidenceLevelMismatch ''PRE'' 0 1]
   \<and> CompareConfidenceLevel ''PRE''
        (Element ''A'' [(''ValidationDataConfidenceLevel'', Scalar 0)] [])
        (Element ''A'' [(''ValidationDataConfidenceLevel'', Scalar 0)] [])
      = []"
  using division_by_zero_in_ratio_rule [of 1 1 3 "[1, 0, 1]" "''PLDE''" "[1, 1, 1]"
      "Element ''A'' [(''ValidationDataConfidenceLevel'', Scalar 1)] []" 1
      "Element ''A'' [(''ValidationDataConfidenceLevel'', Scalar 0)] []" "''PRE''"]
    division_by_zero_in_ratio_rule [of "- 1" 1 3 "[1, 0, 1]" "''PLDE''" "[1, 0, 1]"
      "Element ''A'' [(''ValidationDataConfidenceLevel'', Scalar 0)] []" 0
      "Element ''A'' [(''ValidationDataConfidenceLevel'', Scalar 0)] []" "''PRE''"]
    division_by_zero_in_ratio_rule [of 0]
  by (simp add: GetScalarAttribute_def)

end
